theory Spec2Isabelle
  imports Complex_Main "HOL-Library.Word"
begin

unbundle bit_operations_syntax

section \<open>Conventions of the embedding\<close>

text \<open>
  The C++ sources compute on \<open>double\<close> (and \<open>long double\<close>) values. They are embedded
  as \<^typ>\<open>real\<close>: the rounding and the overflow of the arithmetic on doubles are not
  represented. A cast to \<open>float\<close> is a step of the source and is embedded as
  \<open>float_cast\<close>, the rounding to the nearest single precision value. A real number stands
  for a finite value only: where the source divides by zero, the function that does so
  returns an error value in place of the infinity or NaN.

  C arrays are total functions from the index to the element
  (\<open>double GripForce[MAX_FRAMES]\<close> becomes a function of type \<^typ>\<open>nat \<Rightarrow> real\<close>),
  a \<open>Vector3\<close> (\<open>double[3]\<close>, indexed by X, Y, Z) and a \<open>Quaternion\<close>
  (\<open>double[4]\<close>, indexed by X, Y, Z, M) are datatypes with one field per index.
  An array argument is passed by reference in C, so a function that writes into its
  argument returns the new content.

  \<open>MISSING_DOUBLE\<close> is defined in Useful.h, which is not among the sources; every
  function that writes the sentinel takes it as its first parameter.
\<close>

section \<open>The cast to float\<close>

text \<open>
  A \<open>float\<close> has a significand of 24 bits and a least exponent of -126. The cast
  \<open>(float) x\<close> of a double rounds \<open>x\<close> to the nearest multiple of the spacing of the
  floats around it, a tie going to the even multiple. With \<open>e\<close> the exponent of \<open>x\<close>
  (\<open>2 ^ e \<le> |x| < 2 ^ (e + 1)\<close>) the spacing is \<open>2 ^ (e - 23)\<close>, and \<open>2 ^ (-149)\<close> for the
  values below \<open>2 ^ (-126)\<close>. Beyond the largest float the cast gives an infinity;
  \<open>float_cast\<close> does not represent it and rounds as if the exponent were unbounded.
\<close>

definition round_half_even :: "real \<Rightarrow> int" where
  "round_half_even x =
     (let f = \<lfloor>x\<rfloor>
      in if x - of_int f < 1 / 2 then f
         else if 1 / 2 < x - of_int f then f + 1
         else if even f then f else f + 1)"

definition float_cast :: "real \<Rightarrow> real" where
  "float_cast x =
     (if x = 0 then 0
      else
        (let e = max \<lfloor>log 2 \<bar>x\<bar>\<rfloor> (- 126);
             spacing = 2 powr (of_int e - 23)
         in of_int (round_half_even (x / spacing)) * spacing))"

section \<open>VectorsMixin.cpp: vectors, matrices, quaternions\<close>

datatype Vector3 = Vec3 (vX: real) (vY: real) (vZ: real)

datatype Quaternion = Quat (qX: real) (qY: real) (qZ: real) (qM: real)

datatype Matrix3x3 = Mat3 (mX: Vector3) (mY: Vector3) (mZ: Vector3)

definition zeroVector :: Vector3 where
  "zeroVector = Vec3 0 0 0"

definition nullQuaternion :: Quaternion where
  "nullQuaternion = Quat 0 0 0 1"

definition AddVectors :: "Vector3 \<Rightarrow> Vector3 \<Rightarrow> Vector3" where
  "AddVectors a b = Vec3 (vX a + vX b) (vY a + vY b) (vZ a + vZ b)"

definition SubtractVectors :: "Vector3 \<Rightarrow> Vector3 \<Rightarrow> Vector3" where
  "SubtractVectors a b = Vec3 (vX a - vX b) (vY a - vY b) (vZ a - vZ b)"

text \<open>The overload of \<open>ScaleVector\<close> on two \<open>Vector3\<close> casts each component of \<open>a\<close> to
  \<open>float\<close> before the multiplication (\<open>result[X] = (float) a[X] * scaling\<close>: the cast
  binds tighter than the product, which is computed on doubles).\<close>

definition ScaleVector :: "Vector3 \<Rightarrow> real \<Rightarrow> Vector3" where
  "ScaleVector a scaling =
     Vec3 (float_cast (vX a) * scaling) (float_cast (vY a) * scaling) (float_cast (vZ a) * scaling)"

definition VectorNorm :: "Vector3 \<Rightarrow> real" where
  "VectorNorm v = sqrt (vX v * vX v + vY v * vY v + vZ v * vZ v)"

definition NormalizeVector :: "Vector3 \<Rightarrow> Vector3" where
  "NormalizeVector v = ScaleVector v (1 / VectorNorm v)"

definition ComputeCrossProduct :: "Vector3 \<Rightarrow> Vector3 \<Rightarrow> Vector3" where
  "ComputeCrossProduct v1 v2 =
     Vec3 (vY v1 * vZ v2 - vZ v1 * vY v2)
          (vZ v1 * vX v2 - vX v1 * vZ v2)
          (vX v1 * vY v2 - vY v1 * vX v2)"

text \<open>Component \<open>i\<close> of a vector and entry \<open>[i][j]\<close> of a matrix, for the loops
  that run over the indices 0, 1, 2.\<close>

definition vnth :: "Vector3 \<Rightarrow> nat \<Rightarrow> real" where
  "vnth v i = (if i = 0 then vX v else if i = 1 then vY v else vZ v)"

definition mrow :: "Matrix3x3 \<Rightarrow> nat \<Rightarrow> Vector3" where
  "mrow m i = (if i = 0 then mX m else if i = 1 then mY m else mZ m)"

definition mnth :: "Matrix3x3 \<Rightarrow> nat \<Rightarrow> nat \<Rightarrow> real" where
  "mnth m i j = vnth (mrow m i) j"

definition mk_matrix :: "(nat \<Rightarrow> nat \<Rightarrow> real) \<Rightarrow> Matrix3x3" where
  "mk_matrix f = Mat3 (Vec3 (f 0 0) (f 0 1) (f 0 2))
                      (Vec3 (f 1 0) (f 1 1) (f 1 2))
                      (Vec3 (f 2 0) (f 2 1) (f 2 2))"

definition ScaleMatrix :: "Matrix3x3 \<Rightarrow> real \<Rightarrow> Matrix3x3" where
  "ScaleMatrix source scaling = mk_matrix (\<lambda>i j. scaling * mnth source i j)"

definition MultiplyMatrices :: "Matrix3x3 \<Rightarrow> Matrix3x3 \<Rightarrow> Matrix3x3" where
  "MultiplyMatrices left right =
     mk_matrix (\<lambda>i j. fold (\<lambda>k acc. acc + mnth left i k * mnth right k j) [0..<3] 0)"

definition OrthonormalizeMatrix :: "Matrix3x3 \<Rightarrow> Matrix3x3" where
  "OrthonormalizeMatrix m =
     (let rx = mX m;
          rz = ComputeCrossProduct (mX m) (mY m);
          ry = ComputeCrossProduct rz (mX m)
      in Mat3 (NormalizeVector rx) (NormalizeVector ry) (NormalizeVector rz))"

definition CrossVectors :: "(nat \<Rightarrow> Vector3) \<Rightarrow> (nat \<Rightarrow> Vector3) \<Rightarrow> int \<Rightarrow> Matrix3x3" where
  "CrossVectors left right rows =
     mk_matrix (\<lambda>i j.
        fold (\<lambda>k acc. acc + vnth (left k) i * vnth (right k) j) [0..<nat rows] 0
          / real_of_int rows)"

definition Determinant :: "Matrix3x3 \<Rightarrow> real" where
  "Determinant m =
     mnth m 0 0 * (mnth m 2 2 * mnth m 1 1 - mnth m 2 1 * mnth m 1 2) -
     mnth m 1 0 * (mnth m 2 2 * mnth m 0 1 - mnth m 2 1 * mnth m 0 2) +
     mnth m 2 0 * (mnth m 1 2 * mnth m 0 1 - mnth m 1 1 * mnth m 0 2)"

definition InvertMatrix :: "Matrix3x3 \<Rightarrow> Matrix3x3" where
  "InvertMatrix m =
     (let det = Determinant m;
          r = Mat3
            (Vec3 (mnth m 2 2 * mnth m 1 1 - mnth m 2 1 * mnth m 1 2)
                  (mnth m 2 1 * mnth m 0 2 - mnth m 2 2 * mnth m 0 1)
                  (mnth m 1 2 * mnth m 0 1 - mnth m 1 1 * mnth m 0 2))
            (Vec3 (mnth m 2 0 * mnth m 1 2 - mnth m 2 2 * mnth m 1 0)
                  (mnth m 2 2 * mnth m 0 0 - mnth m 2 0 * mnth m 0 2)
                  (mnth m 1 0 * mnth m 0 2 - mnth m 1 2 * mnth m 0 0))
            (Vec3 (mnth m 2 1 * mnth m 1 0 - mnth m 2 0 * mnth m 1 1)
                  (mnth m 2 0 * mnth m 0 1 - mnth m 2 1 * mnth m 0 0)
                  (mnth m 1 1 * mnth m 0 0 - mnth m 1 0 * mnth m 0 1))
      in ScaleMatrix r (1 / det))"

definition BestFitTransformation ::
  "(nat \<Rightarrow> Vector3) \<Rightarrow> (nat \<Rightarrow> Vector3) \<Rightarrow> int \<Rightarrow> Matrix3x3" where
  "BestFitTransformation input output rows =
     (let right = CrossVectors input output rows;
          left = CrossVectors input input rows;
          left_inverse = InvertMatrix left
      in MultiplyMatrices left_inverse right)"

definition MultiplyQuaternions :: "Quaternion \<Rightarrow> Quaternion \<Rightarrow> Quaternion" where
  "MultiplyQuaternions q1 q2 =
     Quat (qM q1 * qX q2 + qX q1 * qM q2 + qY q1 * qZ q2 - qZ q1 * qY q2)
          (qM q1 * qY q2 - qX q1 * qZ q2 + qY q1 * qM q2 + qZ q1 * qX q2)
          (qM q1 * qZ q2 + qX q1 * qY q2 - qY q1 * qX q2 + qZ q1 * qM q2)
          (qM q1 * qM q2 - qX q1 * qX q2 - qY q1 * qY q2 - qZ q1 * qZ q2)"

definition RotateVector :: "Quaternion \<Rightarrow> Vector3 \<Rightarrow> Vector3" where
  "RotateVector q v =
     (let vq = Quat (vX v) (vY v) (vZ v) 0;
          conjugate = Quat (float_cast (qX q) * (-1)) (float_cast (qY q) * (-1))
                           (float_cast (qZ q) * (-1)) (qM q);
          interim = MultiplyQuaternions q vq;
          rq = MultiplyQuaternions interim conjugate
      in Vec3 (qX rq) (qY rq) (qZ rq))"

text \<open>\<open>MatrixToQuaternion\<close>: the preprocessor symbol \<open>DEX_IMPLEMENTATION\<close> selects the
  single-formula variant; it is a parameter here.\<close>

definition MatrixToQuaternion :: "bool \<Rightarrow> Matrix3x3 \<Rightarrow> Quaternion" where
  "MatrixToQuaternion DEX_IMPLEMENTATION m =
     (let ortho = OrthonormalizeMatrix m;
          t = mnth ortho 0 0 + mnth ortho 1 1 + mnth ortho 2 2
      in if DEX_IMPLEMENTATION then
           (let r = sqrt (1 + t); s = 0.5 / r
            in Quat ((mnth ortho 1 2 - mnth ortho 2 1) * s)
                    ((mnth ortho 2 0 - mnth ortho 0 2) * s)
                    ((mnth ortho 0 1 - mnth ortho 1 0) * s)
                    (0.5 * r))
         else if t > 0 then
           (let r = sqrt (1 + mnth ortho 0 0 + mnth ortho 1 1 + mnth ortho 2 2); s = 0.5 / r
            in Quat ((mnth ortho 1 2 - mnth ortho 2 1) * s)
                    ((mnth ortho 2 0 - mnth ortho 0 2) * s)
                    ((mnth ortho 0 1 - mnth ortho 1 0) * s)
                    (0.5 * r))
         else if mnth ortho 0 0 > mnth ortho 1 1 \<and> mnth ortho 0 0 > mnth ortho 2 2 then
           (let r = sqrt (1 + mnth ortho 0 0 - mnth ortho 1 1 - mnth ortho 2 2); s = 0.5 / r
            in Quat (0.5 * r)
                    ((mnth ortho 1 0 + mnth ortho 0 1) * s)
                    ((mnth ortho 2 0 + mnth ortho 0 2) * s)
                    ((mnth ortho 1 2 - mnth ortho 2 1) * s))
         else if mnth ortho 1 1 > mnth ortho 2 2 then
           (let r = sqrt (1 + mnth ortho 1 1 - mnth ortho 0 0 - mnth ortho 2 2); s = 0.5 / r
            in Quat ((mnth ortho 1 0 + mnth ortho 0 1) * s)
                    (0.5 * r)
                    ((mnth ortho 2 1 + mnth ortho 1 2) * s)
                    ((mnth ortho 2 0 - mnth ortho 0 2) * s))
         else
           (let r = sqrt (1 + mnth ortho 2 2 - mnth ortho 0 0 - mnth ortho 1 1); s = 0.5 / r
            in Quat ((mnth ortho 2 0 + mnth ortho 0 2) * s)
                    ((mnth ortho 2 1 + mnth ortho 1 2) * s)
                    (0.5 * r)
                    ((mnth ortho 0 1 - mnth ortho 1 0) * s)))"

text \<open>The C library's \<open>atan2\<close>, on reals.\<close>

definition atan2 :: "real \<Rightarrow> real \<Rightarrow> real" where
  "atan2 y x =
     (if 0 < x then arctan (y / x)
      else if x < 0 \<and> 0 \<le> y then arctan (y / x) + pi
      else if x < 0 then arctan (y / x) - pi
      else if 0 < y then pi / 2
      else if y < 0 then - (pi / 2)
      else 0)"

definition QuaternionToCannonicalRotations :: "Quaternion \<Rightarrow> Vector3" where
  "QuaternionToCannonicalRotations q =
     Vec3 (atan2 (2 * (qM q * qX q + qY q * qZ q)) (1 - (qX q * qX q + qY q * qY q)))
          (atan2 (2 * (qM q * qY q + qX q * qZ q)) (1 - (qY q * qY q + qZ q * qZ q)))
          (atan2 (2 * (qM q * qZ q + qX q * qY q)) (1 - (qX q * qX q + qZ q * qZ q)))"

text \<open>
  \<open>ComputeRigidBodyPose\<close>. \<open>MAX_RIGID_BODY_MARKERS\<close> is declared in VectorsMixin.h,
  which is not among the sources, and is a parameter. The pointer argument
  \<open>default_orientation\<close> is an option: \<open>None\<close> is the null pointer. The result is the
  returned flag with the contents written to \<open>position\<close> and \<open>orientation\<close>.
\<close>

definition ComputeRigidBodyPose ::
  "int \<Rightarrow> bool \<Rightarrow> (nat \<Rightarrow> Vector3) \<Rightarrow> (nat \<Rightarrow> Vector3) \<Rightarrow> int \<Rightarrow> Quaternion option
     \<Rightarrow> bool \<times> Vector3 \<times> Quaternion" where
  "ComputeRigidBodyPose MAX_RIGID_BODY_MARKERS DEX_IMPLEMENTATION model actual N0
      default_orientation =
     (let N = (if N0 > MAX_RIGID_BODY_MARKERS then MAX_RIGID_BODY_MARKERS else N0)
      in if N < 3 \<and> default_orientation = None then
           (False,
            Vec3 (-999.999) (-999.999) (-999.999),
            Quat (-999.999) (-999.999) (-999.999) (-999.999))
         else
           (let orientation =
              (if N > 3 then
                 (let model_centroid =
                        ScaleVector (fold (\<lambda>i c. AddVectors c (model i)) [0..<nat N] zeroVector)
                          (1 / real_of_int N);
                      actual_centroid =
                        ScaleVector (fold (\<lambda>i c. AddVectors c (actual i)) [0..<nat N] zeroVector)
                          (1 / real_of_int N);
                      model_delta = (\<lambda>i. SubtractVectors (model i) model_centroid);
                      actual_delta = (\<lambda>i. SubtractVectors (actual i) actual_centroid);
                      model_center_of_rotation =
                        ScaleVector (ComputeCrossProduct (model_delta 0) (model_delta 1))
                          (VectorNorm (model_delta 0) / VectorNorm (model_delta 0)
                             / VectorNorm (model_delta 1));
                      actual_center_of_rotation =
                        ScaleVector (ComputeCrossProduct (actual_delta 0) (actual_delta 1))
                          (VectorNorm (model_delta 0) / VectorNorm (actual_delta 0)
                             / VectorNorm (actual_delta 1));
                      model_delta' =
                        (\<lambda>i. SubtractVectors (model_delta i) model_center_of_rotation);
                      actual_delta' =
                        (\<lambda>i. SubtractVectors (actual_delta i) actual_center_of_rotation);
                      best = BestFitTransformation model_delta' actual_delta' N
                  in MatrixToQuaternion DEX_IMPLEMENTATION best)
               else if N = 3 then
                 (let model_x = NormalizeVector (SubtractVectors (model 1) (model 0));
                      model_temp = SubtractVectors (model 2) (model 0);
                      model_z = NormalizeVector (ComputeCrossProduct model_x model_temp);
                      model_y = NormalizeVector (ComputeCrossProduct model_z model_x);
                      model_local = Mat3 model_x model_y model_z;
                      actual_x = NormalizeVector (SubtractVectors (actual 1) (actual 0));
                      actual_temp = SubtractVectors (actual 2) (actual 0);
                      actual_z = NormalizeVector (ComputeCrossProduct actual_x actual_temp);
                      actual_y = NormalizeVector (ComputeCrossProduct actual_z actual_x);
                      actual_local = Mat3 actual_x actual_y actual_z;
                      inverse = InvertMatrix model_local;
                      exact = MultiplyMatrices inverse actual_local
                  in MatrixToQuaternion DEX_IMPLEMENTATION exact)
               else
                 \<comment> \<open>here \<open>N < 3\<close>, so the pointer is not null\<close>
                 the default_orientation);
              position =
                ScaleVector
                  (fold (\<lambda>i p. AddVectors p
                           (SubtractVectors (actual i) (RotateVector orientation (model i))))
                     [0..<nat N] zeroVector)
                  (1 / real_of_int N)
            in (True, position, orientation)))"

section \<open>DexAnalogMixin.cpp: derived forces and the recursive filters\<close>

text \<open>Modelled from the spec: \<open>N_FORCE_TRANSDUCERS\<close>, \<open>LEFT_ATI\<close> and \<open>RIGHT_ATI\<close> are
  declared in DexAnalogMixin.h, which is not among the sources. The manipulandum carries
  two 6-axis load sensors; the source indexes them \<open>ft[2]\<close> and documents the valid
  sensor ids as 0 or 1, which are taken here for the left and the right sensor.\<close>

definition N_FORCE_TRANSDUCERS :: int where
  "N_FORCE_TRANSDUCERS = 2"

definition LEFT_ATI :: nat where
  "LEFT_ATI = 0"

definition RIGHT_ATI :: nat where
  "RIGHT_ATI = 1"

record DexAnalogMixin =
  filterConstant :: real
  filteredManipulandumPosition :: Vector3
  filteredManipulandumRotations :: Vector3
  filteredLoadForce :: Vector3
  filteredAcceleration :: Vector3
  filteredCoP :: "nat \<Rightarrow> Vector3"
  filteredGripForce :: real
  filteredNormalForce :: "nat \<Rightarrow> real"

definition SetFilterConstant :: "real \<Rightarrow> DexAnalogMixin \<Rightarrow> DexAnalogMixin" where
  "SetFilterConstant filter_constant d = d\<lparr>filterConstant := filter_constant\<rparr>"

text \<open>The constructor, less the sensor alignment quaternions, which none of the functions
  below read. \<open>filteredNormalForce\<close> is not assigned by the constructor; the only instance
  is the global \<open>dex\<close>, whose storage is zero before the constructor runs.\<close>

definition DexAnalogMixin_init :: DexAnalogMixin where
  "DexAnalogMixin_init =
     SetFilterConstant 100
       \<lparr> filterConstant = 0,
         filteredManipulandumPosition = zeroVector,
         filteredManipulandumRotations = zeroVector,
         filteredLoadForce = zeroVector,
         filteredAcceleration = zeroVector,
         filteredCoP = (\<lambda>ati. zeroVector),
         filteredGripForce = 0,
         filteredNormalForce = (\<lambda>ati. 0) \<rparr>"

text \<open>\<open>ComputeCoP\<close> returns the distance and the content written to \<open>cop\<close>. The
  branch that computes divides by \<open>force[X]\<close>, which is zero only under a negative
  threshold. There the quotients are not finite: a zero torque component over zero is a
  NaN, and so is the distance computed from it; two non-zero torque components over zero
  are infinities, and the distance is the positive infinity. Neither is a real number, so
  the result is an error value that tells which of the two the call returns.\<close>

datatype non_finite = Infinite | NotANumber

definition ComputeCoP ::
  "real \<Rightarrow> Vector3 \<Rightarrow> Vector3 \<Rightarrow> real \<Rightarrow> non_finite + real \<times> Vector3" where
  "ComputeCoP MISSING_DOUBLE force torque threshold =
     (if \<bar>vX force\<bar> > threshold then
        (if vX force = 0 then
           (if vZ torque = 0 \<or> vY torque = 0 then Inl NotANumber else Inl Infinite)
         else
           (let copY = - vZ torque / vX force;
                copZ = - vY torque / vX force;
                copX = 0
            in Inr (sqrt (copZ * copZ + copY * copY), Vec3 copX copY copZ)))
      else
        Inr (-1, Vec3 MISSING_DOUBLE MISSING_DOUBLE MISSING_DOUBLE))"

definition ComputeGripForce :: "Vector3 \<Rightarrow> Vector3 \<Rightarrow> real" where
  "ComputeGripForce force1 force2 = (vX force2 - vX force1) / 2"

definition ComputeLoadForce :: "Vector3 \<Rightarrow> Vector3 \<Rightarrow> real \<times> Vector3" where
  "ComputeLoadForce force1 force2 =
     (let load = Vec3 (vX force1 + vX force2) (vY force1 + vY force2) (vZ force1 + vZ force2)
      in (VectorNorm load, load))"

text \<open>The vector filters work in place: each returns the norm, the filtered vector written
  back into the argument, and the updated instance.\<close>

definition recursive_filter :: "real \<Rightarrow> Vector3 \<Rightarrow> Vector3 \<Rightarrow> Vector3" where
  "recursive_filter k filtered sample =
     ScaleVector (AddVectors (ScaleVector filtered k) sample) (1 / (1 + k))"

definition FilterLoadForce :: "Vector3 \<Rightarrow> DexAnalogMixin \<Rightarrow> real \<times> Vector3 \<times> DexAnalogMixin" where
  "FilterLoadForce load_force d =
     (let f = recursive_filter (filterConstant d) (filteredLoadForce d) load_force
      in (VectorNorm f, f, d\<lparr>filteredLoadForce := f\<rparr>))"

definition FilterCoP ::
  "nat \<Rightarrow> Vector3 \<Rightarrow> DexAnalogMixin \<Rightarrow> real \<times> Vector3 \<times> DexAnalogMixin" where
  "FilterCoP which_ati center_of_pressure d =
     (let f = recursive_filter (filterConstant d) (filteredCoP d which_ati) center_of_pressure
      in (VectorNorm f, f, d\<lparr>filteredCoP := (filteredCoP d)(which_ati := f)\<rparr>))"

definition FilterManipulandumPosition ::
  "Vector3 \<Rightarrow> DexAnalogMixin \<Rightarrow> real \<times> Vector3 \<times> DexAnalogMixin" where
  "FilterManipulandumPosition position d =
     (let f = recursive_filter (filterConstant d) (filteredManipulandumPosition d) position
      in (VectorNorm f, f, d\<lparr>filteredManipulandumPosition := f\<rparr>))"

definition FilterManipulandumRotations ::
  "Vector3 \<Rightarrow> DexAnalogMixin \<Rightarrow> real \<times> Vector3 \<times> DexAnalogMixin" where
  "FilterManipulandumRotations rotations d =
     (let f = recursive_filter (filterConstant d) (filteredManipulandumRotations d) rotations
      in (VectorNorm f, f, d\<lparr>filteredManipulandumRotations := f\<rparr>))"

definition FilterAcceleration ::
  "Vector3 \<Rightarrow> DexAnalogMixin \<Rightarrow> real \<times> Vector3 \<times> DexAnalogMixin" where
  "FilterAcceleration acceleration d =
     (let f = recursive_filter (filterConstant d) (filteredAcceleration d) acceleration
      in (VectorNorm f, f, d\<lparr>filteredAcceleration := f\<rparr>))"

definition FilterGripForce :: "real \<Rightarrow> DexAnalogMixin \<Rightarrow> real \<times> DexAnalogMixin" where
  "FilterGripForce grip_force d =
     (let f = (grip_force + filterConstant d * filteredGripForce d) / (1 + filterConstant d)
      in (f, d\<lparr>filteredGripForce := f\<rparr>))"

definition FilterNormalForce ::
  "real \<Rightarrow> real \<Rightarrow> int \<Rightarrow> DexAnalogMixin \<Rightarrow> real \<times> DexAnalogMixin" where
  "FilterNormalForce MISSING_DOUBLE normal_force ati d =
     (if ati \<ge> N_FORCE_TRANSDUCERS \<or> ati < 0 then (MISSING_DOUBLE, d)
      else
        (let f = (normal_force + filterConstant d * filteredNormalForce d (nat ati))
                   / (1 + filterConstant d)
         in (f, d\<lparr>filteredNormalForce := (filteredNormalForce d)(nat ati := f)\<rparr>)))"

section \<open>GripPackets.h: constants and extracted packet structures\<close>

definition MAX_OPEN_CACHE_RETRIES :: nat where
  "MAX_OPEN_CACHE_RETRIES = 5"

definition RETRY_PAUSE :: nat where
  "RETRY_PAUSE = 20"

definition ERROR_CACHE_NOT_FOUND :: int where
  "ERROR_CACHE_NOT_FOUND = -1000"

definition PACKET_STREAM_BREAK_THRESHOLD :: real where
  "PACKET_STREAM_BREAK_THRESHOLD = 1.0"


definition EPM_TELEMETRY_SYNC_VALUE :: "32 word" where
  "EPM_TELEMETRY_SYNC_VALUE = 0xFFDB544D"

definition GRIP_HK_ID :: "16 word" where
  "GRIP_HK_ID = 0x0301"

definition GRIP_RT_ID :: "16 word" where
  "GRIP_RT_ID = 0x1001"

definition RT_SLICES_PER_PACKET :: nat where
  "RT_SLICES_PER_PACKET = 10"

definition hkPacketLengthInBytes :: int where
  "hkPacketLengthInBytes = 158"

definition rtPacketLengthInBytes :: int where
  "rtPacketLengthInBytes = 802"

text \<open>\<open>unsigned long\<close> is 32 bits wide on the Windows target of these sources.\<close>

record EPMTransferFrameHeaderInfo =
  epmLanSyncMarker :: "32 word"
  spare1 :: "8 word"
  softwareUnitID :: "8 word"
  packetType :: "16 word"
  spare2 :: "16 word"
  tf_numberOfWords :: "16 word"

record EPMTelemetryHeaderInfo =
  transferFrameInfo :: EPMTransferFrameHeaderInfo
  epmSyncMarker :: "32 word"
  subsystemMode :: "8 word"
  subsystemID :: "8 word"
  destination :: "8 word"
  subsystemUnitID :: "8 word"
  TMIdentifier :: "16 word"
  TMCounter :: "16 word"
  model_id :: "8 word"
  taskID :: "8 word"
  subsystemUnitVersion :: "16 word"
  coarseTime :: "32 word"
  fineTime :: "16 word"
  timerStatus :: "8 word"
  experimentMode :: "8 word"
  checksumIndicator :: "16 word"
  receiverSubsystemID :: "8 word"
  receiverSubsystemUnitID :: "8 word"
  numberOfWords :: "16 word"

record ForceTorque =
  force :: Vector3
  torque :: Vector3

record ManipulandumPacket =
  poseTick :: "32 word"
  position :: Vector3
  quaternion :: Quaternion
  markerVisibility :: "nat \<Rightarrow> 32 word"
  manipulandumVisibility :: "8 word"
  analogTick :: "32 word"
  ft :: "nat \<Rightarrow> ForceTorque"
  acceleration :: Vector3
  bestGuessPoseTimestamp :: real
  bestGuessAnalogTimestamp :: real

record GripRealtimeDataInfo =
  packetTimestamp :: real
  acquisitionID :: "32 word"
  rtPacketCount :: "32 word"
  dataSlice :: "nat \<Rightarrow> ManipulandumPacket"

record GripHealthAndStatusInfo =
  horizontalTargetFeedback :: "16 word"
  verticalTargetFeedback :: "16 word"
  toneFeedback :: "8 word"
  cradleDetectors :: "8 word"
  user :: "16 word"
  protocol :: "16 word"
  task :: "16 word"
  step :: "16 word"
  scriptEngineStatusEnum :: "16 word"
  iochannelStatusEnum :: "16 word"
  motionTrackerStatusEnum :: "16 word"
  crewCameraStatusEnum :: "16 word"
  crewCameraRate :: "16 word"
  runningBits :: "16 word"
  cpuUsage :: "16 word"
  memoryUsage :: "16 word"
  freeDiskSpaceC :: "32 word"
  freeDiskSpaceD :: "32 word"
  freeDiskSpaceE :: "32 word"
  crc :: "16 word"

text \<open>The static header \<open>rtHeader\<close> of GripPackets.h, representative of a realtime
  science packet, and \<open>hkHeader\<close>, representative of a housekeeping packet.\<close>

definition rtHeader :: EPMTelemetryHeaderInfo where
  "rtHeader =
     \<lparr> transferFrameInfo =
         \<lparr> epmLanSyncMarker = 0xAA49DBFF, spare1 = 0, softwareUnitID = 43,
           packetType = 0x1153, spare2 = 0, tf_numberOfWords = 802 \<rparr>,
       epmSyncMarker = EPM_TELEMETRY_SYNC_VALUE, subsystemMode = 0, subsystemID = 0x21,
       destination = 0, subsystemUnitID = 0, TMIdentifier = GRIP_RT_ID, TMCounter = 0,
       model_id = 0, taskID = 0, subsystemUnitVersion = 0, coarseTime = 0, fineTime = 0,
       timerStatus = 0, experimentMode = 0, checksumIndicator = 0,
       receiverSubsystemID = 0, receiverSubsystemUnitID = 0, numberOfWords = 0 \<rparr>"

definition hkHeader :: EPMTelemetryHeaderInfo where
  "hkHeader =
     \<lparr> transferFrameInfo =
         \<lparr> epmLanSyncMarker = 0xAA49DBFF, spare1 = 0, softwareUnitID = 43,
           packetType = 0x1153, spare2 = 0, tf_numberOfWords = 158 \<rparr>,
       epmSyncMarker = EPM_TELEMETRY_SYNC_VALUE, subsystemMode = 0, subsystemID = 0x21,
       destination = 0, subsystemUnitID = 0, TMIdentifier = GRIP_HK_ID, TMCounter = 0,
       model_id = 0, taskID = 0, subsystemUnitVersion = 0, coarseTime = 0, fineTime = 0,
       timerStatus = 0, experimentMode = 0, checksumIndicator = 0,
       receiverSubsystemID = 0, receiverSubsystemUnitID = 0, numberOfWords = 0 \<rparr>"

section \<open>GripMMIGlobals.h: the sample buffers\<close>

definition MAX_FRAMES :: nat where
  "MAX_FRAMES = 12 * 60 * 60 * 20"

definition CODA_MARKERS :: nat where
  "CODA_MARKERS = 20"

definition CODA_UNITS :: nat where
  "CODA_UNITS = 2"

definition MANIPULANDUM_FIRST_MARKER :: nat where
  "MANIPULANDUM_FIRST_MARKER = 0"

definition MANIPULANDUM_LAST_MARKER :: nat where
  "MANIPULANDUM_LAST_MARKER = 7"

definition FRAME_FIRST_MARKER :: nat where
  "FRAME_FIRST_MARKER = 8"

definition FRAME_LAST_MARKER :: nat where
  "FRAME_LAST_MARKER = 11"

definition WRIST_FIRST_MARKER :: nat where
  "WRIST_FIRST_MARKER = 12"

definition WRIST_LAST_MARKER :: nat where
  "WRIST_LAST_MARKER = 19"

definition MAX_PLOT_STEP :: nat where
  "MAX_PLOT_STEP = 8"

text \<open>The global buffers and frame count, the filter instance \<open>dex\<close>, the function-level
  statics of GripMMIData.cpp and the two properties of the live-mode checkbox that
  \<open>GetGripRT\<close> writes. \<open>NormalForce\<close> and \<open>CenterOfPressure\<close> are indexed by sensor, then
  frame; \<open>MarkerVisibility\<close> by frame, then marker.\<close>

record GripMMIDesktop =
  nFrames :: nat
  ManipulandumRotations :: "nat \<Rightarrow> Vector3"
  ManipulandumPosition :: "nat \<Rightarrow> Vector3"
  Acceleration :: "nat \<Rightarrow> Vector3"
  GripForce :: "nat \<Rightarrow> real"
  LoadForce :: "nat \<Rightarrow> Vector3"
  NormalForce :: "nat \<Rightarrow> nat \<Rightarrow> real"
  LoadForceMagnitude :: "nat \<Rightarrow> real"
  CenterOfPressure :: "nat \<Rightarrow> nat \<Rightarrow> Vector3"
  RealMarkerTime :: "nat \<Rightarrow> real"
  RealAnalogTime :: "nat \<Rightarrow> real"
  MarkerVisibility :: "nat \<Rightarrow> nat \<Rightarrow> real"
  ManipulandumVisibility :: "nat \<Rightarrow> real"
  FrameVisibility :: "nat \<Rightarrow> real"
  WristVisibility :: "nat \<Rightarrow> real"
  PacketReceived :: "nat \<Rightarrow> real"
  markerVisibilityString :: "nat \<Rightarrow> string"
  dex :: DexAnalogMixin
  rt_previousTMCounter :: "16 word"
  buffers_full_alert :: bool
  hk_previousTMCounter :: "16 word"
  dataLiveCheckbox_Checked :: bool
  dataLiveCheckbox_Enabled :: bool

section \<open>GripMMIData.cpp: reading the realtime cache\<close>

definition COP_MIN_GRIP :: real where
  "COP_MIN_GRIP = 0.5"

text \<open>\<open>TRUE\<close> and \<open>FALSE\<close> of the Windows headers.\<close>

definition TRUE :: int where
  "TRUE = 1"

definition FALSE :: int where
  "FALSE = 0"

text \<open>On the reals every value is finite.\<close>

definition finite_double :: "real \<Rightarrow> bool" where
  "finite_double x = True"

definition update2 :: "(nat \<Rightarrow> nat \<Rightarrow> 'a) \<Rightarrow> nat \<Rightarrow> nat \<Rightarrow> 'a \<Rightarrow> (nat \<Rightarrow> nat \<Rightarrow> 'a)" where
  "update2 a i j v = a(i := (a i)(j := v))"

definition ResetBuffers :: "GripMMIDesktop \<Rightarrow> GripMMIDesktop" where
  "ResetBuffers s = s\<lparr>nFrames := 0\<rparr>"

text \<open>The body of the loop that inserts blank frames at a break in the packet stream
  (lines 171 to 192): the assignments in source order, then \<open>nFrames++\<close>.\<close>

definition blank_frame :: "real \<Rightarrow> GripMMIDesktop \<Rightarrow> GripMMIDesktop" where
  "blank_frame MISSING_DOUBLE s =
     (let n = nFrames s
      in s\<lparr> ManipulandumPosition :=
               (ManipulandumPosition s)(n := Vec3 MISSING_DOUBLE MISSING_DOUBLE MISSING_DOUBLE),
             ManipulandumRotations :=
               (ManipulandumRotations s)(n := Vec3 MISSING_DOUBLE MISSING_DOUBLE MISSING_DOUBLE),
             GripForce := (GripForce s)(n := MISSING_DOUBLE),
             NormalForce :=
               update2 (update2 (NormalForce s) LEFT_ATI n MISSING_DOUBLE)
                 RIGHT_ATI n MISSING_DOUBLE,
             Acceleration :=
               (Acceleration s)(n := Vec3 MISSING_DOUBLE MISSING_DOUBLE MISSING_DOUBLE),
             MarkerVisibility :=
               fold (\<lambda>mrk mv. update2 mv n mrk MISSING_DOUBLE) [0..<CODA_MARKERS]
                 (MarkerVisibility s),
             ManipulandumVisibility := (ManipulandumVisibility s)(n := MISSING_DOUBLE),
             FrameVisibility := (FrameVisibility s)(n := MISSING_DOUBLE),
             WristVisibility := (WristVisibility s)(n := MISSING_DOUBLE),
             PacketReceived := (PacketReceived s)(n := MISSING_DOUBLE),
             RealMarkerTime := (RealMarkerTime s)(n := MISSING_DOUBLE),
             nFrames := n + 1 \<rparr>)"

text \<open>\<open>for ( int count = 0; count < MAX_PLOT_STEP && nFrames < MAX_FRAMES - 1; count++ )\<close>\<close>

function insert_blank_frames :: "real \<Rightarrow> nat \<Rightarrow> GripMMIDesktop \<Rightarrow> GripMMIDesktop" where
  "insert_blank_frames MISSING_DOUBLE count s =
     (if count < MAX_PLOT_STEP \<and> nFrames s < MAX_FRAMES - 1
      then insert_blank_frames MISSING_DOUBLE (count + 1) (blank_frame MISSING_DOUBLE s)
      else s)"
  by pat_completeness auto
termination
  by (relation "measure (\<lambda>(m, count, s). MAX_PLOT_STEP - count)") auto

declare insert_blank_frames.simps [simp del]

text \<open>Lines 201 to 221 of the slice loop: position and rotations of the manipulandum.\<close>

definition decode_pose :: "real \<Rightarrow> ManipulandumPacket \<Rightarrow> GripMMIDesktop \<Rightarrow> GripMMIDesktop" where
  "decode_pose MISSING_DOUBLE sl s =
     (let n = nFrames s
      in if manipulandumVisibility sl \<noteq> 0 then
           (let pos = Vec3 (vX (position sl) / 10) (vY (position sl) / 10)
                        (vZ (position sl) / 10);
                rot = QuaternionToCannonicalRotations (quaternion sl);
                (pos_norm, pos', d1) = FilterManipulandumPosition pos (dex s);
                (rot', d2) =
                   (if finite_double (vX rot)
                    then (let (rot_norm, r, d) = FilterManipulandumRotations rot d1 in (r, d))
                    else (rot, d1))
            in s\<lparr> ManipulandumPosition := (ManipulandumPosition s)(n := pos'),
                   ManipulandumRotations := (ManipulandumRotations s)(n := rot'),
                   dex := d2 \<rparr>)
         else
           s\<lparr> ManipulandumPosition :=
                 (ManipulandumPosition s)(n := Vec3 MISSING_DOUBLE MISSING_DOUBLE MISSING_DOUBLE),
               ManipulandumRotations :=
                 (ManipulandumRotations s)(n := Vec3 MISSING_DOUBLE MISSING_DOUBLE MISSING_DOUBLE) \<rparr>)"

text \<open>Lines 224 to 242: grip force, normal forces, load force, centres of pressure and
  acceleration, each through its filter. The grip force, the normal forces and the
  acceleration are cast to \<open>float\<close> where the source casts them.

  \<open>ComputeCoP\<close> is called with the threshold \<open>COP_MIN_GRIP\<close>, which is positive, so it
  never divides by zero here (\<open>ComputeCoP_finite_in_decode_cop\<close> below) and the case of a
  result that is not finite does not arise; \<open>decode_cop\<close> leaves the state as it is there.\<close>

definition decode_cop :: "real \<Rightarrow> ManipulandumPacket \<Rightarrow> nat \<Rightarrow> GripMMIDesktop \<Rightarrow> GripMMIDesktop" where
  "decode_cop MISSING_DOUBLE sl ati s =
     (let n = nFrames s
      in case ComputeCoP MISSING_DOUBLE (force (ft sl ati)) (torque (ft sl ati)) COP_MIN_GRIP of
           Inr (cop_distance, cop) \<Rightarrow>
             if cop_distance \<ge> 0 then
               (let (cop_norm, cop', d) = FilterCoP ati cop (dex s)
                in s\<lparr> CenterOfPressure := update2 (CenterOfPressure s) ati n cop', dex := d \<rparr>)
             else s\<lparr> CenterOfPressure := update2 (CenterOfPressure s) ati n cop \<rparr>
         | Inl not_finite \<Rightarrow> s)"

definition decode_forces :: "real \<Rightarrow> ManipulandumPacket \<Rightarrow> GripMMIDesktop \<Rightarrow> GripMMIDesktop" where
  "decode_forces MISSING_DOUBLE sl s =
     (let n = nFrames s;
          grip =
            float_cast (ComputeGripForce (force (ft sl LEFT_ATI)) (force (ft sl RIGHT_ATI)));
          (grip', d1) = FilterGripForce grip (dex s);
          normal_left = - float_cast (vX (force (ft sl LEFT_ATI)));
          (normal_left', d2) = FilterNormalForce MISSING_DOUBLE normal_left (int LEFT_ATI) d1;
          normal_right = float_cast (vX (force (ft sl RIGHT_ATI)));
          (normal_right', d3) = FilterNormalForce MISSING_DOUBLE normal_right (int RIGHT_ATI) d2;
          (load_norm, load) = ComputeLoadForce (force (ft sl 0)) (force (ft sl 1));
          (load_magnitude, load', d4) = FilterLoadForce load d3;
          s1 = s\<lparr> GripForce := (GripForce s)(n := float_cast grip'),
                  NormalForce :=
                    update2 (update2 (NormalForce s) LEFT_ATI n (float_cast normal_left'))
                      RIGHT_ATI n (float_cast normal_right'),
                  LoadForce := (LoadForce s)(n := load'),
                  LoadForceMagnitude := (LoadForceMagnitude s)(n := load_magnitude),
                  dex := d4 \<rparr>;
          s2 = fold (decode_cop MISSING_DOUBLE sl) [0..<nat N_FORCE_TRANSDUCERS] s1;
          acc = Vec3 (float_cast (vX (acceleration sl))) (float_cast (vY (acceleration sl)))
                  (float_cast (vZ (acceleration sl)));
          (acc_norm, acc', d5) = FilterAcceleration acc (dex s2)
      in s2\<lparr> Acceleration := (Acceleration s2)(n := acc'), dex := d5 \<rparr>)"

text \<open>Lines 249 to 276: which markers are seen by either coda, and the group flags.\<close>

definition marker_seen :: "ManipulandumPacket \<Rightarrow> nat \<Rightarrow> bool" where
  "marker_seen sl mrk =
     (let bit = push_bit mrk (1 :: 32 word)
      in markerVisibility sl 0 AND bit \<noteq> 0 \<or> markerVisibility sl 1 AND bit \<noteq> 0)"

definition mark_group ::
  "real \<Rightarrow> ManipulandumPacket \<Rightarrow> nat \<Rightarrow> nat \<Rightarrow> nat \<Rightarrow> nat \<Rightarrow> (nat \<Rightarrow> nat \<Rightarrow> real) \<times> nat
     \<Rightarrow> (nat \<Rightarrow> nat \<Rightarrow> real) \<times> nat" where
  "mark_group MISSING_DOUBLE sl n first_marker last_marker offset start =
     fold (\<lambda>mrk (mv, count).
             if marker_seen sl mrk then (update2 mv n mrk (real (mrk + offset)), count + 1)
             else (update2 mv n mrk MISSING_DOUBLE, count))
       [first_marker..<Suc last_marker] start"

definition decode_markers :: "real \<Rightarrow> ManipulandumPacket \<Rightarrow> GripMMIDesktop \<Rightarrow> GripMMIDesktop" where
  "decode_markers MISSING_DOUBLE sl s =
     (let n = nFrames s;
          (mv1, count1) =
             mark_group MISSING_DOUBLE sl n MANIPULANDUM_FIRST_MARKER MANIPULANDUM_LAST_MARKER 1
               (MarkerVisibility s, 0);
          manipulandum = (if manipulandumVisibility sl AND 1 \<noteq> 0 then 10 else MISSING_DOUBLE);
          (mv2, count2) =
             mark_group MISSING_DOUBLE sl n FRAME_FIRST_MARKER FRAME_LAST_MARKER 3 (mv1, 0);
          frame = (if count2 = 4 then 30 else MISSING_DOUBLE);
          (mv3, count3) =
             mark_group MISSING_DOUBLE sl n WRIST_FIRST_MARKER WRIST_LAST_MARKER 5 (mv2, 0);
          wrist = (if count3 \<ge> 3 then 50 else MISSING_DOUBLE)
      in s\<lparr> MarkerVisibility := mv3,
             ManipulandumVisibility := (ManipulandumVisibility s)(n := manipulandum),
             FrameVisibility := (FrameVisibility s)(n := frame),
             WristVisibility := (WristVisibility s)(n := wrist) \<rparr>)"

text \<open>The body of the slice loop (lines 198 to 281).\<close>

definition decode_slice :: "real \<Rightarrow> ManipulandumPacket \<Rightarrow> GripMMIDesktop \<Rightarrow> GripMMIDesktop" where
  "decode_slice MISSING_DOUBLE sl s =
     (let n = nFrames s;
          s0 = s\<lparr> RealMarkerTime := (RealMarkerTime s)(n := bestGuessPoseTimestamp sl),
                  RealAnalogTime := (RealAnalogTime s)(n := bestGuessAnalogTimestamp sl) \<rparr>;
          s1 = decode_pose MISSING_DOUBLE sl s0;
          s2 = decode_forces MISSING_DOUBLE sl s1;
          s3 = decode_markers MISSING_DOUBLE sl s2
      in s3\<lparr> PacketReceived := (PacketReceived s3)(n := -10), nFrames := n + 1 \<rparr>)"

text \<open>\<open>for ( int slice = 0; slice < RT_SLICES_PER_PACKET && nFrames < MAX_FRAMES; slice++ )\<close>\<close>

function decode_slices ::
  "real \<Rightarrow> GripRealtimeDataInfo \<Rightarrow> nat \<Rightarrow> GripMMIDesktop \<Rightarrow> GripMMIDesktop" where
  "decode_slices MISSING_DOUBLE rt slice_no s =
     (if slice_no < RT_SLICES_PER_PACKET \<and> nFrames s < MAX_FRAMES
      then decode_slices MISSING_DOUBLE rt (slice_no + 1)
             (decode_slice MISSING_DOUBLE (dataSlice rt slice_no) s)
      else s)"
  by pat_completeness auto
termination
  by (relation "measure (\<lambda>(m, rt, slice_no, s). RT_SLICES_PER_PACKET - slice_no)") auto

declare decode_slices.simps [simp del]

text \<open>Lines 163 to 282: what the read loop does with one extracted realtime packet. The
  result is the new buffers with the new value of \<open>previous_packet_timestamp\<close>.\<close>

definition decode_packet ::
  "real \<Rightarrow> GripRealtimeDataInfo \<Rightarrow> real \<Rightarrow> GripMMIDesktop \<Rightarrow> GripMMIDesktop \<times> real" where
  "decode_packet MISSING_DOUBLE rt previous_packet_timestamp s =
     (let s1 = (if packetTimestamp rt - previous_packet_timestamp > PACKET_STREAM_BREAK_THRESHOLD
                then insert_blank_frames MISSING_DOUBLE 0 s
                else s)
      in (decode_slices MISSING_DOUBLE rt 0 s1, packetTimestamp rt))"

text \<open>
  The cache file is the environment of a call. \<open>ExtractEPMTelemetryHeaderInfo\<close> and
  \<open>ExtractGripRealtimeDataInfo\<close> are declared in GripPackets.h and defined outside the
  sources, so each \<open>_read\<close> is given by the number of bytes it returns together with the
  header and payload that the extraction yields from the bytes read; past the end of the
  list \<open>_read\<close> returns 0 bytes. \<open>rtc_sopen k\<close> is the result of the \<open>k\<close>-th call of
  \<open>_sopen\<close>. The locals \<open>fid\<close>, \<open>epmHeader\<close> and \<open>rt\<close> are declared without initialiser:
  their indeterminate first contents are part of the environment.
\<close>

record rt_read =
  rd_bytes_read :: int
  rd_header :: EPMTelemetryHeaderInfo
  rd_info :: GripRealtimeDataInfo

record rt_cache =
  rtc_sopen :: "nat \<Rightarrow> int"
  rtc_reads :: "rt_read list"
  rtc_close :: int
  rtc_uninit_fid :: int
  rtc_uninit_epmHeader :: EPMTelemetryHeaderInfo
  rtc_uninit_rt :: GripRealtimeDataInfo

text \<open>The calls that reach outside the process, in order. Each fatal error shows a message
  box and then calls \<open>exit\<close>, which ends the process: it is the \<open>Inl\<close> result.\<close>

datatype io_event = EvOpen | EvSleep nat | EvRead | EvClose | EvMessageBox

datatype fatal = OpenFailed | ReadFailed | UnrecognizedPacket | CloseFailed int

fun exit_code :: "fatal \<Rightarrow> int" where
  "exit_code OpenFailed = -1"
| "exit_code ReadFailed = -1"
| "exit_code UnrecognizedPacket = -1"
| "exit_code (CloseFailed return_code) = return_code"

text \<open>\<open>for ( retry_count = 0; retry_count < MAX_OPEN_CACHE_RETRIES; retry_count ++ )\<close>,
  with the current value of \<open>fid\<close> and the calls made so far.\<close>

function open_cache :: "(nat \<Rightarrow> int) \<Rightarrow> nat \<Rightarrow> int \<Rightarrow> io_event list \<Rightarrow> int \<times> io_event list" where
  "open_cache sopen retry_count fid tr =
     (if retry_count < MAX_OPEN_CACHE_RETRIES then
        (let fid' = sopen retry_count
         in if fid' \<ge> 0 then (fid', tr @ [EvOpen])
            else open_cache sopen (retry_count + 1) fid' (tr @ [EvOpen, EvSleep RETRY_PAUSE]))
      else (fid, tr))"
  by pat_completeness auto
termination
  by (relation "measure (\<lambda>(sopen, retry_count, fid, tr). MAX_OPEN_CACHE_RETRIES - retry_count)")
     auto

declare open_cache.simps [simp del]

record rt_read_state =
  rs_desk :: GripMMIDesktop
  rs_previous_packet_timestamp :: real
  rs_epmHeader :: EPMTelemetryHeaderInfo
  rs_rt :: GripRealtimeDataInfo
  rs_packets_read :: int
  rs_trace :: "io_event list"

text \<open>\<open>while ( nFrames < MAX_FRAMES )\<close> of \<open>GetGripRT\<close>, over the reads still to come.\<close>

fun read_rt_packets ::
  "real \<Rightarrow> rt_read list \<Rightarrow> rt_read_state \<Rightarrow> fatal \<times> io_event list + rt_read_state" where
  "read_rt_packets MISSING_DOUBLE [] st =
     (if nFrames (rs_desk st) < MAX_FRAMES
      then Inr (st\<lparr>rs_trace := rs_trace st @ [EvRead]\<rparr>)
      else Inr st)"
| "read_rt_packets MISSING_DOUBLE (r # rest) st =
     (if nFrames (rs_desk st) < MAX_FRAMES then
        (let tr = rs_trace st @ [EvRead]
         in if rd_bytes_read r < 0 then Inl (ReadFailed, tr @ [EvMessageBox])
            else if rtPacketLengthInBytes \<noteq> rd_bytes_read r then Inr (st\<lparr>rs_trace := tr\<rparr>)
            else if epmSyncMarker (rd_header r) \<noteq> EPM_TELEMETRY_SYNC_VALUE
                    \<or> TMIdentifier (rd_header r) \<noteq> GRIP_RT_ID
                 then Inl (UnrecognizedPacket, tr @ [EvMessageBox])
            else
              read_rt_packets MISSING_DOUBLE rest
                (st\<lparr> rs_desk :=
                       fst (decode_packet MISSING_DOUBLE (rd_info r)
                              (rs_previous_packet_timestamp st) (rs_desk st)),
                     rs_previous_packet_timestamp :=
                       snd (decode_packet MISSING_DOUBLE (rd_info r)
                              (rs_previous_packet_timestamp st) (rs_desk st)),
                     rs_epmHeader := rd_header r,
                     rs_rt := rd_info r,
                     rs_packets_read := rs_packets_read st + 1,
                     rs_trace := tr \<rparr>))
      else Inr st)"

text \<open>Lines 292 to 300: one character per marker of the last slice, for one coda.\<close>

definition visibility_string :: "32 word \<Rightarrow> string" where
  "visibility_string visibility =
     fold (\<lambda>mrk str.
             (let str1 = (if mrk = 8 \<or> mrk = 12 then str @ ''  '' else str)
              in if visibility AND push_bit mrk 1 \<noteq> 0 then str1 @ ''u'' else str1 @ ''m''))
       [0..<CODA_MARKERS] ''''"

text \<open>\<open>GetGripRT\<close>: the process either exits (\<open>Inl\<close>) or the call returns a value and
  leaves the globals and statics in a new state (\<open>Inr\<close>); the second component lists the
  outside calls made.\<close>

definition GetGripRT ::
  "real \<Rightarrow> rt_cache \<Rightarrow> GripMMIDesktop \<Rightarrow> (fatal + int \<times> GripMMIDesktop) \<times> io_event list" where
  "GetGripRT MISSING_DOUBLE cache s =
     (if buffers_full_alert s then
        (Inr (FALSE, s\<lparr>dataLiveCheckbox_Checked := False, dataLiveCheckbox_Enabled := False\<rparr>), [])
      else
        (let s1 = ResetBuffers s;
             (fid, tr1) = open_cache (rtc_sopen cache) 0 (rtc_uninit_fid cache) []
         in if fid < 0 then (Inl OpenFailed, tr1 @ [EvMessageBox])
            else
              (case read_rt_packets MISSING_DOUBLE (rtc_reads cache)
                      \<lparr> rs_desk = s1, rs_previous_packet_timestamp = 0,
                        rs_epmHeader = rtc_uninit_epmHeader cache, rs_rt = rtc_uninit_rt cache,
                        rs_packets_read = 0, rs_trace = tr1 \<rparr> of
                 Inl (e, tr) \<Rightarrow> (Inl e, tr)
               | Inr st \<Rightarrow>
                   (let return_code = rtc_close cache;
                        tr2 = rs_trace st @ [EvClose]
                    in if return_code \<noteq> 0
                       then (Inl (CloseFailed return_code), tr2 @ [EvMessageBox])
                       else
                         (let last_slice = dataSlice (rs_rt st) (RT_SLICES_PER_PACKET - 1);
                              s2 = (rs_desk st)
                                 \<lparr> markerVisibilityString :=
                                     fold (\<lambda>coda mvs.
                                             mvs(coda := visibility_string
                                                           (markerVisibility last_slice coda)))
                                       [0..<CODA_UNITS] (markerVisibilityString (rs_desk st)) \<rparr>;
                              (s3, tr3) =
                                 (if nFrames s2 \<ge> MAX_FRAMES
                                  then (s2\<lparr>buffers_full_alert := True\<rparr>, tr2 @ [EvMessageBox])
                                  else (s2, tr2))
                          in if rt_previousTMCounter s3 \<noteq> TMCounter (rs_epmHeader st)
                             then (Inr (TRUE,
                                        s3\<lparr>rt_previousTMCounter := TMCounter (rs_epmHeader st)\<rparr>),
                                   tr3)
                             else (Inr (FALSE, s3), tr3))))))"

section \<open>GripMMIData.cpp: the latest housekeeping packet\<close>

record hk_read =
  hkr_bytes_read :: int
  hkr_header :: EPMTelemetryHeaderInfo
  hkr_info :: GripHealthAndStatusInfo

record hk_cache =
  hkc_open :: "nat \<Rightarrow> int"
  hkc_reads :: "hk_read list"
  hkc_close :: int
  hkc_uninit_fid :: int
  hkc_uninit_epmHeader :: EPMTelemetryHeaderInfo

record hk_read_state =
  hs_hk :: GripHealthAndStatusInfo
  hs_epmHeader :: EPMTelemetryHeaderInfo
  hs_packets_read :: int
  hs_trace :: "io_event list"

text \<open>\<open>while ( true )\<close> of \<open>GetLatestGripHK\<close>, over the reads still to come; the loop is
  left at the first read of fewer bytes than a housekeeping packet has.\<close>

fun read_hk_packets :: "hk_read list \<Rightarrow> hk_read_state \<Rightarrow> fatal \<times> io_event list + hk_read_state" where
  "read_hk_packets [] st = Inr (st\<lparr>hs_trace := hs_trace st @ [EvRead]\<rparr>)"
| "read_hk_packets (r # rest) st =
     (let tr = hs_trace st @ [EvRead]
      in if hkr_bytes_read r < 0 then Inl (ReadFailed, tr @ [EvMessageBox])
         else if hkr_bytes_read r < hkPacketLengthInBytes then Inr (st\<lparr>hs_trace := tr\<rparr>)
         else if epmSyncMarker (hkr_header r) \<noteq> EPM_TELEMETRY_SYNC_VALUE
                 \<or> TMIdentifier (hkr_header r) \<noteq> GRIP_HK_ID
              then Inl (UnrecognizedPacket, tr @ [EvMessageBox])
         else
           read_hk_packets rest
             (st\<lparr> hs_hk := hkr_info r,
                  hs_epmHeader := hkr_header r,
                  hs_packets_read := hs_packets_read st + 1,
                  hs_trace := tr \<rparr>))"

text \<open>\<open>GetLatestGripHK\<close>: the argument \<open>hk\<close> is the content of the caller's structure on
  entry; a returning call yields the return value, the content of the structure and the
  new state.\<close>

definition GetLatestGripHK ::
  "hk_cache \<Rightarrow> GripHealthAndStatusInfo \<Rightarrow> GripMMIDesktop
     \<Rightarrow> (fatal + int \<times> GripHealthAndStatusInfo \<times> GripMMIDesktop) \<times> io_event list" where
  "GetLatestGripHK cache hk s =
     (let (fid, tr1) = open_cache (hkc_open cache) 0 (hkc_uninit_fid cache) []
      in if fid < 0 then (Inl OpenFailed, tr1 @ [EvMessageBox])
         else
           (case read_hk_packets (hkc_reads cache)
                   \<lparr> hs_hk = hk, hs_epmHeader = hkc_uninit_epmHeader cache,
                     hs_packets_read = 0, hs_trace = tr1 \<rparr> of
              Inl (e, tr) \<Rightarrow> (Inl e, tr)
            | Inr st \<Rightarrow>
                (let return_code = hkc_close cache;
                     tr2 = hs_trace st @ [EvClose]
                 in if return_code \<noteq> 0
                    then (Inl (CloseFailed return_code), tr2 @ [EvMessageBox])
                    else if hk_previousTMCounter s \<noteq> TMCounter (hs_epmHeader st)
                    then (Inr (TRUE, hs_hk st,
                               s\<lparr>hk_previousTMCounter := TMCounter (hs_epmHeader st)\<rparr>), tr2)
                    else (Inr (FALSE, hs_hk st, s), tr2))))"

text \<open>\<open>UpdateStatus\<close>, as far as the choice of its branch: the first branch returns at
  once, the second refreshes the status display from \<open>hk_info\<close> (the display is outside
  this development), otherwise nothing is done. \<open>hk_info\<close> is a local without
  initialiser, so its first content is an argument.\<close>

datatype status_branch = CacheNotFoundReturn | DisplayRefreshed GripHealthAndStatusInfo | NothingDone

definition UpdateStatus ::
  "bool \<Rightarrow> hk_cache \<Rightarrow> GripHealthAndStatusInfo \<Rightarrow> GripMMIDesktop
     \<Rightarrow> (fatal + status_branch \<times> GripMMIDesktop) \<times> io_event list" where
  "UpdateStatus forced cache uninit_hk_info s =
     (case GetLatestGripHK cache uninit_hk_info s of
        (Inl e, tr) \<Rightarrow> (Inl e, tr)
      | (Inr (return_code, hk_info, s'), tr) \<Rightarrow>
          if ERROR_CACHE_NOT_FOUND = return_code then (Inr (CacheNotFoundReturn, s'), tr)
          else if return_code = TRUE \<or> forced then (Inr (DisplayRefreshed hk_info, s'), tr)
          else (Inr (NothingDone, s'), tr))"

section \<open>Successive calls, frames and sample data\<close>

text \<open>A sequence of calls of \<open>GetGripRT\<close>, one cache content per call, each call starting
  from the state the previous one left; nothing follows a call that ends the process.\<close>

fun GetGripRT_calls ::
  "real \<Rightarrow> rt_cache list \<Rightarrow> GripMMIDesktop
     \<Rightarrow> ((fatal + int \<times> GripMMIDesktop) \<times> io_event list) list" where
  "GetGripRT_calls MISSING_DOUBLE [] s = []"
| "GetGripRT_calls MISSING_DOUBLE (cache # caches) s =
     GetGripRT MISSING_DOUBLE cache s #
       (case fst (GetGripRT MISSING_DOUBLE cache s) of
          Inl e \<Rightarrow> []
        | Inr (r, s') \<Rightarrow> GetGripRT_calls MISSING_DOUBLE caches s')"

text \<open>Everything the sample buffers hold for frame \<open>i\<close>.\<close>

definition frame_at ::
  "GripMMIDesktop \<Rightarrow> nat \<Rightarrow>
     (Vector3 \<times> Vector3 \<times> Vector3 \<times> real \<times> Vector3 \<times> (nat \<Rightarrow> real) \<times> real) \<times>
     ((nat \<Rightarrow> Vector3) \<times> real \<times> real \<times> (nat \<Rightarrow> real) \<times> real \<times> real \<times> real \<times> real)" where
  "frame_at s i =
     ((ManipulandumRotations s i, ManipulandumPosition s i, Acceleration s i, GripForce s i,
       LoadForce s i, (\<lambda>ati. NormalForce s ati i), LoadForceMagnitude s i),
      ((\<lambda>ati. CenterOfPressure s ati i), RealMarkerTime s i, RealAnalogTime s i,
       MarkerVisibility s i, ManipulandumVisibility s i, FrameVisibility s i,
       WristVisibility s i, PacketReceived s i))"

text \<open>Frame \<open>i\<close> is a blank frame: the channels that the break loop writes all hold the
  missing sentinel.\<close>

definition blank_at :: "real \<Rightarrow> GripMMIDesktop \<Rightarrow> nat \<Rightarrow> bool" where
  "blank_at MISSING_DOUBLE s i \<longleftrightarrow>
     ManipulandumPosition s i = Vec3 MISSING_DOUBLE MISSING_DOUBLE MISSING_DOUBLE \<and>
     ManipulandumRotations s i = Vec3 MISSING_DOUBLE MISSING_DOUBLE MISSING_DOUBLE \<and>
     GripForce s i = MISSING_DOUBLE \<and>
     NormalForce s LEFT_ATI i = MISSING_DOUBLE \<and>
     NormalForce s RIGHT_ATI i = MISSING_DOUBLE \<and>
     Acceleration s i = Vec3 MISSING_DOUBLE MISSING_DOUBLE MISSING_DOUBLE \<and>
     (\<forall>mrk<CODA_MARKERS. MarkerVisibility s i mrk = MISSING_DOUBLE) \<and>
     ManipulandumVisibility s i = MISSING_DOUBLE \<and>
     FrameVisibility s i = MISSING_DOUBLE \<and>
     WristVisibility s i = MISSING_DOUBLE \<and>
     PacketReceived s i = MISSING_DOUBLE \<and>
     RealMarkerTime s i = MISSING_DOUBLE"

text \<open>The state at program start: the global buffers are zero, \<open>dex\<close> is constructed, the
  statics have their initialisers, live mode is on.\<close>

definition GripMMIDesktop_startup :: GripMMIDesktop where
  "GripMMIDesktop_startup =
     \<lparr> nFrames = 0,
       ManipulandumRotations = (\<lambda>i. zeroVector),
       ManipulandumPosition = (\<lambda>i. zeroVector),
       Acceleration = (\<lambda>i. zeroVector),
       GripForce = (\<lambda>i. 0),
       LoadForce = (\<lambda>i. zeroVector),
       NormalForce = (\<lambda>ati i. 0),
       LoadForceMagnitude = (\<lambda>i. 0),
       CenterOfPressure = (\<lambda>ati i. zeroVector),
       RealMarkerTime = (\<lambda>i. 0),
       RealAnalogTime = (\<lambda>i. 0),
       MarkerVisibility = (\<lambda>i mrk. 0),
       ManipulandumVisibility = (\<lambda>i. 0),
       FrameVisibility = (\<lambda>i. 0),
       WristVisibility = (\<lambda>i. 0),
       PacketReceived = (\<lambda>i. 0),
       markerVisibilityString = (\<lambda>coda. []),
       dex = DexAnalogMixin_init,
       rt_previousTMCounter = 0,
       buffers_full_alert = False,
       hk_previousTMCounter = 0,
       dataLiveCheckbox_Checked = True,
       dataLiveCheckbox_Enabled = True \<rparr>"

text \<open>Sample packets: a slice with the manipulandum hidden and no load, a slice with the
  manipulandum visible at raw position (10, 20, 30) in the null orientation, a realtime
  packet of ten equal slices with a given timestamp, and the read of a complete, valid
  realtime record with a given sequence counter.\<close>

definition hidden_slice :: ManipulandumPacket where
  "hidden_slice =
     \<lparr> poseTick = 0, position = zeroVector, quaternion = nullQuaternion,
       markerVisibility = (\<lambda>coda. 0), manipulandumVisibility = 0, analogTick = 0,
       ft = (\<lambda>ati. \<lparr> force = zeroVector, torque = zeroVector \<rparr>),
       acceleration = zeroVector,
       bestGuessPoseTimestamp = 0, bestGuessAnalogTimestamp = 0 \<rparr>"

definition visible_slice :: ManipulandumPacket where
  "visible_slice =
     hidden_slice \<lparr> position := Vec3 10 20 30, manipulandumVisibility := 1 \<rparr>"

definition packet_of :: "real \<Rightarrow> ManipulandumPacket \<Rightarrow> GripRealtimeDataInfo" where
  "packet_of timestamp sl =
     \<lparr> packetTimestamp = timestamp, acquisitionID = 0, rtPacketCount = 0,
       dataSlice = (\<lambda>i. sl) \<rparr>"

definition rt_record :: "16 word \<Rightarrow> GripRealtimeDataInfo \<Rightarrow> rt_read" where
  "rt_record counter info =
     \<lparr> rd_bytes_read = rtPacketLengthInBytes,
       rd_header = rtHeader \<lparr> TMCounter := counter \<rparr>,
       rd_info = info \<rparr>"

text \<open>A cache file that opens at the given attempts and delivers the given reads; the
  uninitialised header holds the given counter.\<close>

definition cache_of :: "(nat \<Rightarrow> int) \<Rightarrow> rt_read list \<Rightarrow> 16 word \<Rightarrow> rt_cache" where
  "cache_of opens reads stale_counter =
     \<lparr> rtc_sopen = opens, rtc_reads = reads, rtc_close = 0, rtc_uninit_fid = 0,
       rtc_uninit_epmHeader = rtHeader \<lparr> TMCounter := stale_counter \<rparr>,
       rtc_uninit_rt = packet_of 0 hidden_slice \<rparr>"

definition hk_zero :: GripHealthAndStatusInfo where
  "hk_zero =
     \<lparr> horizontalTargetFeedback = 0, verticalTargetFeedback = 0, toneFeedback = 0,
       cradleDetectors = 0, user = 0, protocol = 0, task = 0, step = 0,
       scriptEngineStatusEnum = 0, iochannelStatusEnum = 0, motionTrackerStatusEnum = 0,
       crewCameraStatusEnum = 0, crewCameraRate = 0, runningBits = 0, cpuUsage = 0,
       memoryUsage = 0, freeDiskSpaceC = 0, freeDiskSpaceD = 0, freeDiskSpaceE = 0, crc = 0 \<rparr>"

definition hk_cache_of :: "(nat \<Rightarrow> int) \<Rightarrow> hk_read list \<Rightarrow> hk_cache" where
  "hk_cache_of opens reads =
     \<lparr> hkc_open = opens, hkc_reads = reads, hkc_close = 0, hkc_uninit_fid = 0,
       hkc_uninit_epmHeader = hkHeader \<rparr>"

text \<open>A read that delivers a complete realtime record with a valid header.\<close>

definition valid_rt_read :: "rt_read \<Rightarrow> bool" where
  "valid_rt_read r \<longleftrightarrow>
     rd_bytes_read r = rtPacketLengthInBytes \<and>
     epmSyncMarker (rd_header r) = EPM_TELEMETRY_SYNC_VALUE \<and>
     TMIdentifier (rd_header r) = GRIP_RT_ID"

text \<open>The value a call returned and the state it left, if it returned.\<close>

definition return_value :: "(fatal + int \<times> 'st) \<times> io_event list \<Rightarrow> int option" where
  "return_value res = (case fst res of Inl e \<Rightarrow> None | Inr (r, s) \<Rightarrow> Some r)"

definition state_after :: "(fatal + int \<times> 'st) \<times> io_event list \<Rightarrow> 'st option" where
  "state_after res = (case fst res of Inl e \<Rightarrow> None | Inr (r, s) \<Rightarrow> Some s)"

section \<open>Verified properties\<close>

subsection \<open>Centre of pressure\<close>

lemma ComputeCoP_finite:
  "0 \<le> threshold \<Longrightarrow> \<exists>distance cop. ComputeCoP M f t threshold = Inr (distance, cop)"
  by (simp add: ComputeCoP_def Let_def)

lemma ComputeCoP_finite_in_decode_cop:
  "\<exists>distance cop.
     ComputeCoP M (force (ft sl ati)) (torque (ft sl ati)) COP_MIN_GRIP = Inr (distance, cop)"
  by (rule ComputeCoP_finite) (simp add: COP_MIN_GRIP_def)

text \<open>
  Claim C3, amended to the calls that do not divide by zero. \<open>ComputeCoP\<close>, for every
  force, torque and threshold: when \<open>|force[X]|\<close> is at or below the threshold, all three
  coordinates of \<open>cop\<close> are the missing sentinel and the returned distance is -1, a negative
  value; when \<open>|force[X]|\<close> is strictly above the threshold and \<open>force[X]\<close> is not zero,
  \<open>cop[X] = 0\<close>, \<open>cop[Y] = -torque[Z]/force[X]\<close>, \<open>cop[Z] = -torque[Y]/force[X]\<close>, and the
  returned value is the Euclidean norm of that point, which is not negative. With a
  threshold that is not negative, as \<open>COP_MIN_GRIP\<close> is, \<open>force[X]\<close> is not zero whenever
  \<open>|force[X]|\<close> is above the threshold, so the second case is then the whole of it.
\<close>

theorem ComputeCoP_spec:
  "(\<bar>vX f\<bar> \<le> threshold \<longrightarrow>
      ComputeCoP M f t threshold = Inr (- 1, Vec3 M M M) \<and>
      fst (projr (ComputeCoP M f t threshold)) < 0) \<and>
   (\<bar>vX f\<bar> > threshold \<and> vX f \<noteq> 0 \<longrightarrow>
      ComputeCoP M f t threshold =
        Inr (sqrt ((- vZ t / vX f)\<^sup>2 + (- vY t / vX f)\<^sup>2),
             Vec3 0 (- vZ t / vX f) (- vY t / vX f)) \<and>
      fst (projr (ComputeCoP M f t threshold))
        = VectorNorm (snd (projr (ComputeCoP M f t threshold))) \<and>
      0 \<le> fst (projr (ComputeCoP M f t threshold))) \<and>
   (0 \<le> threshold \<and> \<bar>vX f\<bar> > threshold \<longrightarrow> vX f \<noteq> 0)"
  by (auto simp: ComputeCoP_def VectorNorm_def Let_def power2_eq_square add.commute)

theorem ComputeCoP_spec_witness:
  "\<bar>vX (Vec3 0.2 3 4)\<bar> \<le> (0.5::real) \<and>
   ComputeCoP 999999 (Vec3 0.2 3 4) (Vec3 1 6 8) 0.5 = Inr (- 1, Vec3 999999 999999 999999) \<and>
   \<bar>vX (Vec3 2 3 4)\<bar> > (0.5::real) \<and> vX (Vec3 2 3 4) \<noteq> 0 \<and>
   ComputeCoP 999999 (Vec3 2 3 4) (Vec3 1 6 8) 0.5 = Inr (5, Vec3 0 (-4) (-3)) \<and>
   (0::real) \<le> 0.5"
proof -
  have lo: "\<bar>vX (Vec3 0.2 3 4)\<bar> \<le> (0.5::real)" and hi: "\<bar>vX (Vec3 2 3 4)\<bar> > (0.5::real)"
    and nn: "(0::real) \<le> 0.5"
    by simp_all
  have sq: "sqrt ((- vZ (Vec3 1 6 8) / vX (Vec3 2 3 4))\<^sup>2
              + (- vY (Vec3 1 6 8) / vX (Vec3 2 3 4))\<^sup>2) = 5"
    by simp
  from ComputeCoP_spec [of "Vec3 0.2 3 4" "0.5" 999999 "Vec3 1 6 8"] lo
  have below: "ComputeCoP 999999 (Vec3 0.2 3 4) (Vec3 1 6 8) 0.5
      = Inr (- 1, Vec3 999999 999999 999999)"
    by blast
  from ComputeCoP_spec [of "Vec3 2 3 4" "0.5" 999999 "Vec3 1 6 8"] hi nn
  have nz: "vX (Vec3 2 3 4) \<noteq> 0"
    by blast
  from ComputeCoP_spec [of "Vec3 2 3 4" "0.5" 999999 "Vec3 1 6 8"] hi nz
  have "ComputeCoP 999999 (Vec3 2 3 4) (Vec3 1 6 8) 0.5
        = Inr (sqrt ((- vZ (Vec3 1 6 8) / vX (Vec3 2 3 4))\<^sup>2
                   + (- vY (Vec3 1 6 8) / vX (Vec3 2 3 4))\<^sup>2),
               Vec3 0 (- vZ (Vec3 1 6 8) / vX (Vec3 2 3 4))
                      (- vY (Vec3 1 6 8) / vX (Vec3 2 3 4)))"
    by blast
  with sq have above: "ComputeCoP 999999 (Vec3 2 3 4) (Vec3 1 6 8) 0.5
      = Inr (5, Vec3 0 (-4) (-3))"
    by simp
  from below above lo hi nz nn show ?thesis by blast
qed

text \<open>
  Claim C3 as stated, for every threshold, fails where a negative threshold lets a zero
  \<open>force[X]\<close> through: with the force (0, 3, 4), the torque (1, 0, 0) and the threshold -1,
  \<open>|force[X]| = 0\<close> is strictly above the threshold, the code divides \<open>-torque[Z] = -0\<close> by
  zero, and what it writes and returns is a NaN, not a distance that is zero or more.
\<close>

theorem ComputeCoP_divides_by_zero:
  "\<bar>vX (Vec3 0 3 4)\<bar> > (- 1 :: real) \<and>
   ComputeCoP 999999 (Vec3 0 3 4) (Vec3 1 0 0) (- 1) = Inl NotANumber"
  by (simp add: ComputeCoP_def)

subsection \<open>The normal-force filter checks its sensor index\<close>

text \<open>
  Claim C9. \<open>FilterNormalForce\<close> with a sensor index outside \<open>0 \<le> ati < N_FORCE_TRANSDUCERS\<close>
  returns the missing sentinel and leaves the instance, hence every accumulator, as it
  was; with a valid index it stores the filtered value in the accumulator of that sensor
  only, changes nothing else, and returns the stored value.
\<close>

theorem FilterNormalForce_range:
  "(ati < 0 \<or> N_FORCE_TRANSDUCERS \<le> ati \<longrightarrow> FilterNormalForce M x ati d = (M, d)) \<and>
   (0 \<le> ati \<and> ati < N_FORCE_TRANSDUCERS \<longrightarrow>
      FilterNormalForce M x ati d =
        ((x + filterConstant d * filteredNormalForce d (nat ati)) / (1 + filterConstant d),
         d\<lparr>filteredNormalForce := (filteredNormalForce d)
              (nat ati := (x + filterConstant d * filteredNormalForce d (nat ati))
                            / (1 + filterConstant d))\<rparr>) \<and>
      (\<forall>j. j \<noteq> nat ati \<longrightarrow>
         filteredNormalForce (snd (FilterNormalForce M x ati d)) j = filteredNormalForce d j) \<and>
      fst (FilterNormalForce M x ati d)
        = filteredNormalForce (snd (FilterNormalForce M x ati d)) (nat ati))"
  by (auto simp: FilterNormalForce_def Let_def)

theorem FilterNormalForce_range_witness:
  "FilterNormalForce 999999 7 2 DexAnalogMixin_init = (999999, DexAnalogMixin_init) \<and>
   FilterNormalForce 999999 7 (-1) DexAnalogMixin_init = (999999, DexAnalogMixin_init) \<and>
   fst (FilterNormalForce 999999 202 1 DexAnalogMixin_init) = 2 \<and>
   filteredNormalForce (snd (FilterNormalForce 999999 202 1 DexAnalogMixin_init)) 1 = 2 \<and>
   filteredNormalForce (snd (FilterNormalForce 999999 202 1 DexAnalogMixin_init)) 0 = 0"
proof -
  have n: "N_FORCE_TRANSDUCERS = 2"
    by (simp add: N_FORCE_TRANSDUCERS_def)
  have init: "filterConstant DexAnalogMixin_init = 100"
      "filteredNormalForce DexAnalogMixin_init = (\<lambda>ati. 0)"
    by (simp_all add: DexAnalogMixin_init_def SetFilterConstant_def)
  from FilterNormalForce_range [of 2 999999 7 DexAnalogMixin_init] n
  have a: "FilterNormalForce 999999 7 2 DexAnalogMixin_init = (999999, DexAnalogMixin_init)"
    by simp
  from FilterNormalForce_range [of "-1" 999999 7 DexAnalogMixin_init]
  have b: "FilterNormalForce 999999 7 (-1) DexAnalogMixin_init = (999999, DexAnalogMixin_init)"
    by simp
  from FilterNormalForce_range [of 1 999999 202 DexAnalogMixin_init] n init
  have c: "fst (FilterNormalForce 999999 202 1 DexAnalogMixin_init) = 2 \<and>
      filteredNormalForce (snd (FilterNormalForce 999999 202 1 DexAnalogMixin_init)) 1 = 2 \<and>
      filteredNormalForce (snd (FilterNormalForce 999999 202 1 DexAnalogMixin_init)) 0 = 0"
    by simp
  from a b c show ?thesis by blast
qed

subsection \<open>Pose from fewer than three markers\<close>

text \<open>
  Claim C7. \<open>ComputeRigidBodyPose\<close> called with fewer than 3 markers and a null
  \<open>default_orientation\<close> returns false and has written the value -999.999 into the three
  components of the position and the four components of the orientation.
\<close>

theorem ComputeRigidBodyPose_too_few_markers:
  "N < 3 \<Longrightarrow>
   ComputeRigidBodyPose MAX_RIGID_BODY_MARKERS DEX_IMPLEMENTATION model actual N None =
     (False, Vec3 (-999.999) (-999.999) (-999.999),
      Quat (-999.999) (-999.999) (-999.999) (-999.999))"
  by (simp add: ComputeRigidBodyPose_def Let_def)

theorem ComputeRigidBodyPose_too_few_markers_witness:
  "(2::int) < 3 \<and>
   ComputeRigidBodyPose 8 False (\<lambda>i. Vec3 (real i) 0 0) (\<lambda>i. Vec3 (real i) 1 0) 2 None =
     (False, Vec3 (-999.999) (-999.999) (-999.999),
      Quat (-999.999) (-999.999) (-999.999) (-999.999))"
proof -
  have h: "(2::int) < 3" by simp
  from ComputeRigidBodyPose_too_few_markers
         [OF h, of 8 False "\<lambda>i. Vec3 (real i) 0 0" "\<lambda>i. Vec3 (real i) 1 0"] h
  show ?thesis by blast
qed

subsection \<open>The recursive filter\<close>

lemma float_cast_zero: "float_cast 0 = 0"
  by (simp add: float_cast_def)

lemma float_cast_binade:
  assumes lo: "2 ^ n \<le> \<bar>x\<bar>" and hi: "\<bar>x\<bar> < 2 ^ Suc n"
  shows "float_cast x = of_int (round_half_even (x * 2 ^ 23 / 2 ^ n)) * 2 ^ n / 2 ^ 23"
proof -
  from lo have pos: "0 < \<bar>x\<bar>"
    by (rule less_le_trans [rotated]) simp
  then have nz: "x \<noteq> 0" by simp
  have "2 powr real_of_int (int n) \<le> \<bar>x\<bar> \<and> \<bar>x\<bar> < 2 powr (real_of_int (int n) + 1)"
    using lo hi by (simp add: powr_realpow powr_add)
  with pos have e: "\<lfloor>log 2 \<bar>x\<bar>\<rfloor> = int n"
    by (simp add: floor_log_eq_powr_iff)
  have sp: "2 powr (real n - 23) = 2 ^ n / (2 ^ 23 :: real)"
    by (simp add: powr_diff powr_realpow)
  have "float_cast x = of_int (round_half_even (x / 2 powr (real n - 23))) * 2 powr (real n - 23)"
    using nz by (simp add: float_cast_def Let_def e)
  then show ?thesis
    by (simp only: sp) simp
qed

text \<open>Small integers are floats; \<open>1 + 2 ^ (-24)\<close> lies half way between the floats 1 and
  \<open>1 + 2 ^ (-23)\<close> and is cast to 1, the even one; \<open>101 + 2 ^ (-24)\<close> is cast to 101.\<close>

lemma float_cast_small_integers:
  "float_cast 1 = 1" "float_cast 2 = 2" "float_cast 3 = 3"
  using float_cast_binade [of 0 1] float_cast_binade [of 1 2] float_cast_binade [of 1 3]
  by (simp_all add: round_half_even_def)

lemma float_cast_above_one: "float_cast (16777217 / 16777216) = 1"
  using float_cast_binade [of 0 "16777217 / 16777216"]
  by (simp add: round_half_even_def)

lemma float_cast_above_101: "float_cast (1694498817 / 16777216) = 101"
  using float_cast_binade [of 6 "1694498817 / 16777216"]
  by (simp add: round_half_even_def)

lemma filter_step_affine:
  fixes k x y :: real
  assumes "0 \<le> k"
  shows "(x + k * y) / (1 + k) = x + k / (1 + k) * (y - x)"
proof -
  from assms have "1 + k \<noteq> 0" by simp
  then show ?thesis by (simp add: field_simps)
qed

lemma filter_step_closed_form:
  fixes k x g :: real
  assumes "0 \<le> k"
  shows "((\<lambda>g. (x + k * g) / (1 + k)) ^^ n) g = x + (k / (1 + k)) ^ n * (g - x)"
proof (induction n)
  case 0
  show ?case by simp
next
  case (Suc n)
  then show ?case
    by (simp add: filter_step_affine [OF assms])
qed

lemma filter_step_converges:
  fixes k x g :: real
  assumes "0 \<le> k"
  shows "(\<lambda>n. ((\<lambda>g. (x + k * g) / (1 + k)) ^^ n) g) \<longlonglongrightarrow> x"
proof -
  from assms have "0 \<le> k / (1 + k)" and "k / (1 + k) < 1" by simp_all
  then have "(\<lambda>n. (k / (1 + k)) ^ n) \<longlonglongrightarrow> 0"
    by (rule LIMSEQ_realpow_zero)
  then have "(\<lambda>n. (k / (1 + k)) ^ n * (g - x)) \<longlonglongrightarrow> 0 * (g - x)"
    by (rule tendsto_mult_right)
  then have "(\<lambda>n. x + (k / (1 + k)) ^ n * (g - x)) \<longlonglongrightarrow> x + 0 * (g - x)"
    by (rule tendsto_add [OF tendsto_const])
  then show ?thesis
    by (simp add: filter_step_closed_form [OF assms])
qed

lemma FilterGripForce_iterate:
  "filterConstant (((\<lambda>d. snd (FilterGripForce x d)) ^^ n) d) = filterConstant d \<and>
   filteredGripForce (((\<lambda>d. snd (FilterGripForce x d)) ^^ n) d)
     = ((\<lambda>g. (x + filterConstant d * g) / (1 + filterConstant d)) ^^ n) (filteredGripForce d)"
  by (induction n) (simp_all add: FilterGripForce_def Let_def)

text \<open>The scalar filter of the grip force computes on doubles only. For a smoothing
  constant \<open>k \<ge> 0\<close> and any state, an update returns and stores
  \<open>(new_sample + k * previous) / (1 + k)\<close>; a stored value equal to the input is a fixed
  point; with \<open>k = 0\<close> the input passes through; feeding the same value again and again
  makes the stored value converge to it from any state.\<close>

lemma FilterGripForce_update:
  assumes k: "0 \<le> filterConstant d"
  shows
    "fst (FilterGripForce x d)
        = (x + filterConstant d * filteredGripForce d) / (1 + filterConstant d) \<and>
     filteredGripForce (snd (FilterGripForce x d)) = fst (FilterGripForce x d) \<and>
     (filteredGripForce d = x \<longrightarrow> fst (FilterGripForce x d) = x) \<and>
     (filterConstant d = 0 \<longrightarrow> fst (FilterGripForce x d) = x) \<and>
     (\<lambda>n. filteredGripForce (((\<lambda>d. snd (FilterGripForce x d)) ^^ n) d)) \<longlonglongrightarrow> x"
proof -
  from k have nz: "1 + filterConstant d \<noteq> 0" by simp
  have g1: "fst (FilterGripForce x d)
        = (x + filterConstant d * filteredGripForce d) / (1 + filterConstant d)"
    by (simp add: FilterGripForce_def Let_def)
  have g2: "filteredGripForce (snd (FilterGripForce x d)) = fst (FilterGripForce x d)"
    by (simp add: FilterGripForce_def Let_def)
  have g3: "filteredGripForce d = x \<longrightarrow> fst (FilterGripForce x d) = x"
    using nz by (simp add: g1 field_simps)
  have g4: "filterConstant d = 0 \<longrightarrow> fst (FilterGripForce x d) = x"
    by (simp add: g1)
  have g5: "(\<lambda>n. filteredGripForce (((\<lambda>d. snd (FilterGripForce x d)) ^^ n) d)) \<longlonglongrightarrow> x"
    using filter_step_converges [OF k] by (simp add: FilterGripForce_iterate)
  from g1 g2 g3 g4 g5 show ?thesis by blast
qed

text \<open>The vector filters scale twice through \<open>ScaleVector\<close>, so the stored vector and then
  the sum are cast to \<open>float\<close>.\<close>

lemma recursive_filter_components:
  "recursive_filter k f v =
     Vec3 (float_cast (float_cast (vX f) * k + vX v) * (1 / (1 + k)))
          (float_cast (float_cast (vY f) * k + vY v) * (1 / (1 + k)))
          (float_cast (float_cast (vZ f) * k + vZ v) * (1 / (1 + k)))"
  by (simp add: recursive_filter_def ScaleVector_def AddVectors_def)

text \<open>
  Claim C6, where the code departs from it. The claim has every filter update compute
  \<open>(new_sample + k * previous) / (1 + k)\<close>, a filtered value equal to the input be a fixed
  point and \<open>k = 0\<close> make the filter a pass-through. \<open>FilterGripForce\<close> does so
  (\<open>FilterGripForce_update\<close>). \<open>FilterLoadForce\<close> does not: with the constant 100 and the zero
  state of a new instance, the load force \<open>(1 + 2 ^ (-24), 0, 0)\<close>, a value that a double
  holds and a float does not, is filtered to \<open>(1/101, 0, 0)\<close>, which is not
  \<open>((1 + 2 ^ (-24)) / 101, 0, 0)\<close>, where \<open>FilterGripForce\<close> on the same number returns the
  value of the formula; with the constant 0 the same load force comes back as \<open>(1, 0, 0)\<close>
  and not as itself; and a stored vector equal to it is moved to \<open>(1, 0, 0)\<close>.
\<close>

theorem FilterLoadForce_narrows_to_float:
  "filterConstant DexAnalogMixin_init = 100 \<and>
   filteredLoadForce DexAnalogMixin_init = Vec3 0 0 0 \<and>
   filteredGripForce DexAnalogMixin_init = 0 \<and>
   fst (snd (FilterLoadForce (Vec3 (16777217 / 16777216) 0 0) DexAnalogMixin_init))
     = Vec3 (1 / 101) 0 0 \<and>
   fst (snd (FilterLoadForce (Vec3 (16777217 / 16777216) 0 0) DexAnalogMixin_init))
     \<noteq> Vec3 ((16777217 / 16777216 + 100 * 0) / (1 + 100)) ((0 + 100 * 0) / (1 + 100))
            ((0 + 100 * 0) / (1 + 100)) \<and>
   fst (FilterGripForce (16777217 / 16777216) DexAnalogMixin_init)
     = (16777217 / 16777216 + 100 * 0) / (1 + 100) \<and>
   fst (snd (FilterLoadForce (Vec3 (16777217 / 16777216) 0 0)
               (SetFilterConstant 0 DexAnalogMixin_init)))
     = Vec3 1 0 0 \<and>
   fst (snd (FilterLoadForce (Vec3 (16777217 / 16777216) 0 0)
               (DexAnalogMixin_init\<lparr>filteredLoadForce := Vec3 (16777217 / 16777216) 0 0\<rparr>)))
     = Vec3 1 0 0"
proof -
  have init: "filterConstant DexAnalogMixin_init = 100"
      "filteredLoadForce DexAnalogMixin_init = Vec3 0 0 0"
      "filteredGripForce DexAnalogMixin_init = 0"
    by (simp_all add: DexAnalogMixin_init_def SetFilterConstant_def zeroVector_def)
  have first: "fst (snd (FilterLoadForce (Vec3 (16777217 / 16777216) 0 0) DexAnalogMixin_init))
      = Vec3 (1 / 101) 0 0"
    by (simp add: FilterLoadForce_def Let_def recursive_filter_components init float_cast_zero
          float_cast_above_one)
  have grip: "fst (FilterGripForce (16777217 / 16777216) DexAnalogMixin_init)
      = (16777217 / 16777216 + 100 * 0) / (1 + 100)"
    by (simp add: FilterGripForce_def Let_def init)
  have pass: "fst (snd (FilterLoadForce (Vec3 (16777217 / 16777216) 0 0)
               (SetFilterConstant 0 DexAnalogMixin_init)))
      = Vec3 1 0 0"
    by (simp add: FilterLoadForce_def Let_def recursive_filter_components SetFilterConstant_def
          init float_cast_zero float_cast_above_one)
  have fixed: "fst (snd (FilterLoadForce (Vec3 (16777217 / 16777216) 0 0)
               (DexAnalogMixin_init\<lparr>filteredLoadForce := Vec3 (16777217 / 16777216) 0 0\<rparr>)))
      = Vec3 1 0 0"
    by (simp add: FilterLoadForce_def Let_def recursive_filter_components init float_cast_zero
          float_cast_above_one float_cast_above_101)
  from init first grip pass fixed show ?thesis
    by simp
qed

subsection \<open>Opening the cache file\<close>

lemma open_cache_all_fail:
  "\<forall>k<MAX_OPEN_CACHE_RETRIES. sopen k < 0 \<Longrightarrow> retry_count < MAX_OPEN_CACHE_RETRIES \<Longrightarrow>
   open_cache sopen retry_count fid tr =
     (sopen (MAX_OPEN_CACHE_RETRIES - 1),
      tr @ concat (replicate (MAX_OPEN_CACHE_RETRIES - retry_count)
                     [EvOpen, EvSleep RETRY_PAUSE]))"
proof (induction sopen retry_count fid tr rule: open_cache.induct)
  case (1 sopen retry_count fid tr)
  note fails = "1.prems"(1) and lt = "1.prems"(2)
  from fails lt have neg: "\<not> sopen retry_count \<ge> 0"
    by (simp add: not_le)
  show ?case
  proof (cases "retry_count + 1 < MAX_OPEN_CACHE_RETRIES")
    case True
    have "MAX_OPEN_CACHE_RETRIES - retry_count = Suc (MAX_OPEN_CACHE_RETRIES - (retry_count + 1))"
      using True by simp
    then show ?thesis
      using "1.IH" [OF lt refl neg fails True] lt neg
      by (subst open_cache.simps) (simp add: Let_def)
  next
    case False
    with lt have last: "retry_count + 1 = MAX_OPEN_CACHE_RETRIES" by simp
    then have "open_cache sopen (retry_count + 1) (sopen retry_count)
                 (tr @ [EvOpen, EvSleep RETRY_PAUSE])
               = (sopen retry_count, tr @ [EvOpen, EvSleep RETRY_PAUSE])"
      by (subst open_cache.simps) simp
    moreover from last have "MAX_OPEN_CACHE_RETRIES - retry_count = Suc 0"
      and "MAX_OPEN_CACHE_RETRIES - 1 = retry_count" by simp_all
    ultimately show ?thesis
      using lt neg by (subst open_cache.simps) (simp add: Let_def)
  qed
qed

lemma open_cache_first_success:
  "k < MAX_OPEN_CACHE_RETRIES \<Longrightarrow> \<forall>j<k. sopen j < 0 \<Longrightarrow> sopen k \<ge> 0 \<Longrightarrow> retry_count \<le> k \<Longrightarrow>
   open_cache sopen retry_count fid tr =
     (sopen k, tr @ concat (replicate (k - retry_count) [EvOpen, EvSleep RETRY_PAUSE])
                 @ [EvOpen])"
proof (induction sopen retry_count fid tr rule: open_cache.induct)
  case (1 sopen retry_count fid tr)
  note kmax = "1.prems"(1) and fails = "1.prems"(2) and ok = "1.prems"(3) and le = "1.prems"(4)
  from kmax le have lt: "retry_count < MAX_OPEN_CACHE_RETRIES" by simp
  show ?case
  proof (cases "retry_count = k")
    case True
    with ok lt show ?thesis
      by (subst open_cache.simps) (simp add: Let_def)
  next
    case False
    with le have less: "retry_count < k" by simp
    with fails have neg: "\<not> sopen retry_count \<ge> 0" by (simp add: not_le)
    from less have le': "retry_count + 1 \<le> k" by simp
    from less have "k - retry_count = Suc (k - (retry_count + 1))" by simp
    then show ?thesis
      using "1.IH" [OF lt refl neg kmax fails ok le'] lt neg
      by (subst open_cache.simps) (simp add: Let_def)
  qed
qed

lemma read_rt_packets_trace_extends:
  "case read_rt_packets M rs st of
     Inl (e, tr) \<Rightarrow> (e = ReadFailed \<or> e = UnrecognizedPacket) \<and> (\<exists>rest. tr = rs_trace st @ rest)
   | Inr st' \<Rightarrow> \<exists>rest. rs_trace st' = rs_trace st @ rest"
proof (induction rs arbitrary: st)
  case Nil
  show ?case by simp
next
  case (Cons r rs)
  let ?st' = "st\<lparr> rs_desk :=
                       fst (decode_packet M (rd_info r)
                              (rs_previous_packet_timestamp st) (rs_desk st)),
                     rs_previous_packet_timestamp :=
                       snd (decode_packet M (rd_info r)
                              (rs_previous_packet_timestamp st) (rs_desk st)),
                     rs_epmHeader := rd_header r,
                     rs_rt := rd_info r,
                     rs_packets_read := rs_packets_read st + 1,
                     rs_trace := rs_trace st @ [EvRead] \<rparr>"
  from Cons.IH [of ?st'] show ?case
    by (auto simp: Let_def split: sum.splits prod.splits)
qed

lemma read_rt_packets_reads_first:
  assumes "nFrames (rs_desk st) < MAX_FRAMES"
  shows "case read_rt_packets M rs st of
     Inl (e, tr) \<Rightarrow> (e = ReadFailed \<or> e = UnrecognizedPacket)
                      \<and> (\<exists>rest. tr = rs_trace st @ EvRead # rest)
   | Inr st' \<Rightarrow> \<exists>rest. rs_trace st' = rs_trace st @ EvRead # rest"
proof (cases rs)
  case Nil
  with assms show ?thesis by simp
next
  case (Cons r rs')
  let ?st' = "st\<lparr> rs_desk :=
                       fst (decode_packet M (rd_info r)
                              (rs_previous_packet_timestamp st) (rs_desk st)),
                     rs_previous_packet_timestamp :=
                       snd (decode_packet M (rd_info r)
                              (rs_previous_packet_timestamp st) (rs_desk st)),
                     rs_epmHeader := rd_header r,
                     rs_rt := rd_info r,
                     rs_packets_read := rs_packets_read st + 1,
                     rs_trace := rs_trace st @ [EvRead] \<rparr>"
  from read_rt_packets_trace_extends [where M = M and rs = rs' and st = ?st'] assms Cons show ?thesis
    by (auto simp: Let_def split: sum.splits prod.splits)
qed

lemma GetGripRT_open_exhausted:
  assumes "\<not> buffers_full_alert s" and "\<forall>k<MAX_OPEN_CACHE_RETRIES. rtc_sopen cache k < 0"
  shows "GetGripRT M cache s =
           (Inl OpenFailed,
            concat (replicate MAX_OPEN_CACHE_RETRIES [EvOpen, EvSleep RETRY_PAUSE])
              @ [EvMessageBox])"
proof -
  have pos: "0 < MAX_OPEN_CACHE_RETRIES" by (simp add: MAX_OPEN_CACHE_RETRIES_def)
  from assms(2) pos have last: "rtc_sopen cache (MAX_OPEN_CACHE_RETRIES - 1) < 0" by simp
  from open_cache_all_fail [OF assms(2) pos, of "rtc_uninit_fid cache" "[]"] last assms(1)
  show ?thesis
    by (simp add: GetGripRT_def Let_def)
qed

lemma GetGripRT_open_succeeds:
  assumes "\<not> buffers_full_alert s" and "k < MAX_OPEN_CACHE_RETRIES"
    and "\<forall>j<k. rtc_sopen cache j < 0" and "0 \<le> rtc_sopen cache k"
  shows "fst (GetGripRT M cache s) \<noteq> Inl OpenFailed \<and>
         (\<exists>rest. snd (GetGripRT M cache s) =
                    concat (replicate k [EvOpen, EvSleep RETRY_PAUSE]) @ [EvOpen, EvRead] @ rest)"
proof -
  let ?tr1 = "concat (replicate k [EvOpen, EvSleep RETRY_PAUSE]) @ [EvOpen]"
  let ?st = "\<lparr> rs_desk = ResetBuffers s, rs_previous_packet_timestamp = 0,
               rs_epmHeader = rtc_uninit_epmHeader cache, rs_rt = rtc_uninit_rt cache,
               rs_packets_read = 0, rs_trace = ?tr1 \<rparr>"
  have opened: "open_cache (rtc_sopen cache) 0 (rtc_uninit_fid cache) [] = (rtc_sopen cache k, ?tr1)"
    using open_cache_first_success [OF assms(2) assms(3) assms(4), of 0 "rtc_uninit_fid cache" "[]"]
    by simp
  have room: "nFrames (rs_desk ?st) < MAX_FRAMES"
    by (simp add: ResetBuffers_def MAX_FRAMES_def)
  from read_rt_packets_reads_first [OF room, of M "rtc_reads cache"] assms(1) assms(4) opened
  show ?thesis
    by (auto simp: GetGripRT_def Let_def split: sum.splits prod.splits if_splits)
qed

text \<open>
  Claim C8. In a call of \<open>GetGripRT\<close> that is not cut short by the buffer-full flag: when
  every attempt to open the realtime cache fails, the file is opened exactly
  \<open>MAX_OPEN_CACHE_RETRIES\<close> (5) times, each failed attempt is followed by a pause of
  \<open>RETRY_PAUSE\<close>, and only then the error is shown and the process exits; when the
  attempt number \<open>k\<close> is the first to succeed, the call makes \<open>k\<close> failed attempts with
  their pauses, the successful one, goes on to read the file, and never ends with the
  open-failure exit.
\<close>

theorem open_retry_exhaustion:
  assumes "\<not> buffers_full_alert s"
  shows "((\<forall>k<MAX_OPEN_CACHE_RETRIES. rtc_sopen cache k < 0) \<longrightarrow>
            GetGripRT M cache s =
              (Inl OpenFailed,
               concat (replicate MAX_OPEN_CACHE_RETRIES [EvOpen, EvSleep RETRY_PAUSE])
                 @ [EvMessageBox])) \<and>
         (\<forall>k<MAX_OPEN_CACHE_RETRIES.
            (\<forall>j<k. rtc_sopen cache j < 0) \<and> 0 \<le> rtc_sopen cache k \<longrightarrow>
            fst (GetGripRT M cache s) \<noteq> Inl OpenFailed \<and>
            (\<exists>rest. snd (GetGripRT M cache s) =
                       concat (replicate k [EvOpen, EvSleep RETRY_PAUSE])
                         @ [EvOpen, EvRead] @ rest))"
  using GetGripRT_open_exhausted [OF assms] GetGripRT_open_succeeds [OF assms]
  by blast


theorem open_retry_exhaustion_witness:
  "\<not> buffers_full_alert GripMMIDesktop_startup \<and>
   GetGripRT 999999 (cache_of (\<lambda>k. -1) [] 0) GripMMIDesktop_startup =
     (Inl OpenFailed,
      [EvOpen, EvSleep 20, EvOpen, EvSleep 20, EvOpen, EvSleep 20, EvOpen, EvSleep 20,
       EvOpen, EvSleep 20, EvMessageBox]) \<and>
   fst (GetGripRT 999999 (cache_of (\<lambda>k. if k < 2 then -1 else 3) [] 0) GripMMIDesktop_startup)
     \<noteq> Inl OpenFailed \<and>
   (\<exists>rest. snd (GetGripRT 999999 (cache_of (\<lambda>k. if k < 2 then -1 else 3) [] 0)
                   GripMMIDesktop_startup) =
      [EvOpen, EvSleep 20, EvOpen, EvSleep 20, EvOpen, EvRead] @ rest)"
proof -
  have h: "\<not> buffers_full_alert GripMMIDesktop_startup"
    by (simp add: GripMMIDesktop_startup_def)
  have five: "MAX_OPEN_CACHE_RETRIES = Suc (Suc (Suc (Suc (Suc 0))))"
    by (simp add: MAX_OPEN_CACHE_RETRIES_def)
  have two: "(2::nat) = Suc (Suc 0)" by simp
  from open_retry_exhaustion [OF h, of "cache_of (\<lambda>k. -1) [] 0" 999999]
  have a: "GetGripRT 999999 (cache_of (\<lambda>k. -1) [] 0) GripMMIDesktop_startup =
     (Inl OpenFailed,
      [EvOpen, EvSleep 20, EvOpen, EvSleep 20, EvOpen, EvSleep 20, EvOpen, EvSleep 20,
       EvOpen, EvSleep 20, EvMessageBox])"
    by (simp add: cache_of_def five RETRY_PAUSE_def)
  have k: "(2::nat) < MAX_OPEN_CACHE_RETRIES"
    by (simp add: MAX_OPEN_CACHE_RETRIES_def)
  from open_retry_exhaustion [OF h, of "cache_of (\<lambda>k. if k < 2 then -1 else 3) [] 0" 999999,
         THEN conjunct2, rule_format, OF k]
  have b: "fst (GetGripRT 999999 (cache_of (\<lambda>k. if k < 2 then -1 else 3) [] 0)
                  GripMMIDesktop_startup) \<noteq> Inl OpenFailed \<and>
     (\<exists>rest. snd (GetGripRT 999999 (cache_of (\<lambda>k. if k < 2 then -1 else 3) [] 0)
                   GripMMIDesktop_startup) =
        [EvOpen, EvSleep 20, EvOpen, EvSleep 20, EvOpen, EvRead] @ rest)"
    by (simp add: cache_of_def two RETRY_PAUSE_def)
  from h a b show ?thesis by blast
qed


subsection \<open>Return values of the housekeeping reader\<close>

lemma read_hk_packets_errors:
  "read_hk_packets rs st = Inl (e, tr) \<Longrightarrow> e = ReadFailed \<or> e = UnrecognizedPacket"
proof (induction rs arbitrary: st)
  case Nil
  then show ?case by simp
next
  case (Cons r rs)
  then show ?case
    by (auto simp: Let_def split: if_splits)
qed

lemma GetLatestGripHK_returns:
  "fst (GetLatestGripHK cache hk s) = Inr (v, hk', s') \<Longrightarrow> v = TRUE \<or> v = FALSE"
  by (auto simp: GetLatestGripHK_def Let_def split: prod.splits sum.splits if_splits)

lemma GetLatestGripHK_open_exhausted:
  assumes "\<forall>k<MAX_OPEN_CACHE_RETRIES. hkc_open cache k < 0"
  shows "GetLatestGripHK cache hk s =
           (Inl OpenFailed,
            concat (replicate MAX_OPEN_CACHE_RETRIES [EvOpen, EvSleep RETRY_PAUSE])
              @ [EvMessageBox])"
proof -
  have pos: "0 < MAX_OPEN_CACHE_RETRIES" by (simp add: MAX_OPEN_CACHE_RETRIES_def)
  from assms pos have last: "hkc_open cache (MAX_OPEN_CACHE_RETRIES - 1) < 0" by simp
  from open_cache_all_fail [OF assms pos, of "hkc_uninit_fid cache" "[]"] last
  show ?thesis
    by (simp add: GetLatestGripHK_def Let_def)
qed

text \<open>
  Claim C10. \<open>GetLatestGripHK\<close> never returns \<open>ERROR_CACHE_NOT_FOUND\<close>: a call that returns
  returns \<open>TRUE\<close> or \<open>FALSE\<close>, a cache that cannot be opened in any attempt ends the
  process, and so \<open>UpdateStatus\<close> never takes its branch for \<open>ERROR_CACHE_NOT_FOUND\<close>.
\<close>

theorem GetLatestGripHK_never_cache_not_found:
  "(\<forall>hk' s'. fst (GetLatestGripHK cache hk s) \<noteq> Inr (ERROR_CACHE_NOT_FOUND, hk', s')) \<and>
   (\<forall>v hk' s'. fst (GetLatestGripHK cache hk s) = Inr (v, hk', s') \<longrightarrow> v = TRUE \<or> v = FALSE) \<and>
   ((\<forall>k<MAX_OPEN_CACHE_RETRIES. hkc_open cache k < 0) \<longrightarrow>
      fst (GetLatestGripHK cache hk s) = Inl OpenFailed) \<and>
   (\<forall>s'. fst (UpdateStatus forced cache hk s) \<noteq> Inr (CacheNotFoundReturn, s'))"
proof -
  have codes: "ERROR_CACHE_NOT_FOUND \<noteq> TRUE" "ERROR_CACHE_NOT_FOUND \<noteq> FALSE"
    by (simp_all add: ERROR_CACHE_NOT_FOUND_def TRUE_def FALSE_def)
  have a: "\<forall>hk' s'. fst (GetLatestGripHK cache hk s) \<noteq> Inr (ERROR_CACHE_NOT_FOUND, hk', s')"
    using GetLatestGripHK_returns [of cache hk s ERROR_CACHE_NOT_FOUND] codes by blast
  have b: "\<forall>v hk' s'. fst (GetLatestGripHK cache hk s) = Inr (v, hk', s') \<longrightarrow> v = TRUE \<or> v = FALSE"
    using GetLatestGripHK_returns by blast
  have c: "(\<forall>k<MAX_OPEN_CACHE_RETRIES. hkc_open cache k < 0) \<longrightarrow>
      fst (GetLatestGripHK cache hk s) = Inl OpenFailed"
    using GetLatestGripHK_open_exhausted by simp
  have d: "\<forall>s'. fst (UpdateStatus forced cache hk s) \<noteq> Inr (CacheNotFoundReturn, s')"
  proof (cases "GetLatestGripHK cache hk s")
    case (Pair res tr)
    show ?thesis
    proof (cases res)
      case (Inl e)
      with Pair show ?thesis by (simp add: UpdateStatus_def)
    next
      case (Inr triple)
      obtain v hk' s'' where t: "triple = (v, hk', s'')" by (cases triple)
      with Pair Inr a have "v \<noteq> ERROR_CACHE_NOT_FOUND" by auto
      with Pair Inr t show ?thesis by (simp add: UpdateStatus_def)
    qed
  qed
  from a b c d show ?thesis by blast
qed

theorem GetLatestGripHK_never_cache_not_found_witness:
  "fst (GetLatestGripHK (hk_cache_of (\<lambda>k. -1) []) hk_zero GripMMIDesktop_startup) = Inl OpenFailed \<and>
   fst (GetLatestGripHK
          (hk_cache_of (\<lambda>k. 3)
             [\<lparr> hkr_bytes_read = 158, hkr_header = hkHeader \<lparr> TMCounter := 1 \<rparr>,
                hkr_info = hk_zero \<lparr> user := 4 \<rparr> \<rparr>])
          hk_zero GripMMIDesktop_startup)
     = Inr (TRUE, hk_zero \<lparr> user := 4 \<rparr>, GripMMIDesktop_startup \<lparr> hk_previousTMCounter := 1 \<rparr>) \<and>
   (TRUE = TRUE \<or> TRUE = FALSE) \<and>
   (\<forall>s'. fst (UpdateStatus False (hk_cache_of (\<lambda>k. -1) []) hk_zero GripMMIDesktop_startup)
            \<noteq> Inr (CacheNotFoundReturn, s'))"
proof -
  let ?c = "hk_cache_of (\<lambda>k. 3)
             [\<lparr> hkr_bytes_read = 158, hkr_header = hkHeader \<lparr> TMCounter := 1 \<rparr>,
                hkr_info = hk_zero \<lparr> user := 4 \<rparr> \<rparr>]"
  have fails: "\<forall>k<MAX_OPEN_CACHE_RETRIES. hkc_open (hk_cache_of (\<lambda>k. -1) []) k < 0"
    by (simp add: hk_cache_of_def)
  note t1 = GetLatestGripHK_never_cache_not_found
              [of "hk_cache_of (\<lambda>k. -1) []" hk_zero GripMMIDesktop_startup False]
  from t1 fails
  have a: "fst (GetLatestGripHK (hk_cache_of (\<lambda>k. -1) []) hk_zero GripMMIDesktop_startup)
             = Inl OpenFailed"
    by blast
  from t1 have d: "\<forall>s'. fst (UpdateStatus False (hk_cache_of (\<lambda>k. -1) []) hk_zero
                               GripMMIDesktop_startup) \<noteq> Inr (CacheNotFoundReturn, s')"
    by blast
  have opened: "open_cache (\<lambda>k. 3) 0 0 [] = (3, [EvOpen])"
    by (subst open_cache.simps) (simp add: MAX_OPEN_CACHE_RETRIES_def)
  have b: "fst (GetLatestGripHK ?c hk_zero GripMMIDesktop_startup)
     = Inr (TRUE, hk_zero \<lparr> user := 4 \<rparr>, GripMMIDesktop_startup \<lparr> hk_previousTMCounter := 1 \<rparr>)"
    by (simp add: GetLatestGripHK_def hk_cache_of_def opened Let_def hkPacketLengthInBytes_def
          hkHeader_def GripMMIDesktop_startup_def)
  from GetLatestGripHK_never_cache_not_found [of ?c hk_zero GripMMIDesktop_startup False] b
  have c: "TRUE = TRUE \<or> TRUE = FALSE"
    by blast
  from a b c d show ?thesis by blast
qed

subsection \<open>Frames written by the break loop and by the slice loop\<close>

lemma update2_apply:
  "update2 a i j v i' j' = (if i' = i \<and> j' = j then v else a i' j')"
  by (simp add: update2_def)

lemma fold_update2_row:
  "fold (\<lambda>mrk mv. update2 mv n mrk v) ms mv i mrk
     = (if i = n \<and> mrk \<in> set ms then v else mv i mrk)"
  by (induction ms arbitrary: mv) (auto simp: update2_apply)

lemma nFrames_blank_frame: "nFrames (blank_frame M s) = nFrames s + 1"
  by (simp add: blank_frame_def Let_def)

lemma dex_blank_frame: "dex (blank_frame M s) = dex s"
  by (simp add: blank_frame_def Let_def)

lemma frame_at_blank_frame:
  "i \<noteq> nFrames s \<Longrightarrow> frame_at (blank_frame M s) i = frame_at s i"
  by (simp add: frame_at_def blank_frame_def Let_def update2_apply fold_update2_row fun_eq_iff)

lemma blank_at_blank_frame: "blank_at M (blank_frame M s) (nFrames s)"
  by (simp add: blank_at_def blank_frame_def Let_def update2_apply fold_update2_row)

lemma blank_at_frame_at:
  "frame_at s' i = frame_at s i \<Longrightarrow> blank_at M s' i = blank_at M s i"
  by (simp add: frame_at_def blank_at_def fun_eq_iff)

lemma insert_blank_frames_effect:
  "nFrames (insert_blank_frames M count s)
      = nFrames s + min (MAX_PLOT_STEP - count) (MAX_FRAMES - 1 - nFrames s) \<and>
   dex (insert_blank_frames M count s) = dex s \<and>
   (\<forall>i<nFrames s. frame_at (insert_blank_frames M count s) i = frame_at s i) \<and>
   (\<forall>i. nFrames s \<le> i \<and> i < nFrames (insert_blank_frames M count s)
        \<longrightarrow> blank_at M (insert_blank_frames M count s) i)"
proof (induction M count s rule: insert_blank_frames.induct)
  case (1 M count s)
  show ?case
  proof (cases "count < MAX_PLOT_STEP \<and> nFrames s < MAX_FRAMES - 1")
    case False
    then show ?thesis
      by (subst (1 2 3 4 5) insert_blank_frames.simps) auto
  next
    case True
    let ?s1 = "blank_frame M s"
    let ?r = "insert_blank_frames M (count + 1) ?s1"
    have unfold: "insert_blank_frames M count s = ?r"
      using True by (subst insert_blank_frames.simps) simp
    note IH = "1.IH" [OF True]
    have n: "nFrames ?r = nFrames s + min (MAX_PLOT_STEP - count) (MAX_FRAMES - 1 - nFrames s)"
    proof -
      from IH have "nFrames ?r = nFrames ?s1
          + min (MAX_PLOT_STEP - (count + 1)) (MAX_FRAMES - 1 - nFrames ?s1)"
        by blast
      with True show ?thesis
        unfolding nFrames_blank_frame by arith
    qed
    have d: "dex ?r = dex s"
      using IH by (simp add: dex_blank_frame)
    have kept: "\<forall>i<nFrames s. frame_at ?r i = frame_at s i"
      using IH by (simp add: nFrames_blank_frame frame_at_blank_frame)
    have first: "blank_at M ?r (nFrames s)"
    proof -
      from IH have "frame_at ?r (nFrames s) = frame_at ?s1 (nFrames s)"
        by (simp add: nFrames_blank_frame)
      then have "blank_at M ?r (nFrames s) = blank_at M ?s1 (nFrames s)"
        by (rule blank_at_frame_at)
      with blank_at_blank_frame [of M s] show ?thesis by simp
    qed
    have blanks: "\<forall>i. nFrames s \<le> i \<and> i < nFrames ?r \<longrightarrow> blank_at M ?r i"
    proof (intro allI impI)
      fix i assume i: "nFrames s \<le> i \<and> i < nFrames ?r"
      show "blank_at M ?r i"
      proof (cases "i = nFrames s")
        case True
        with first show ?thesis by simp
      next
        case False
        with i have "nFrames ?s1 \<le> i \<and> i < nFrames ?r"
          by (simp add: nFrames_blank_frame)
        with IH show ?thesis by blast
      qed
    qed
    from n d kept blanks show ?thesis
      by (simp only: unfold)
  qed
qed

lemma decode_pose_frames:
  "nFrames (decode_pose M sl s) = nFrames s \<and>
   (\<forall>i. i \<noteq> nFrames s \<longrightarrow> frame_at (decode_pose M sl s) i = frame_at s i)"
  by (simp add: decode_pose_def Let_def frame_at_def split: prod.splits)

lemma decode_cop_frames:
  "nFrames (decode_cop M sl ati s) = nFrames s \<and>
   (\<forall>i. i \<noteq> nFrames s \<longrightarrow> frame_at (decode_cop M sl ati s) i = frame_at s i)"
  by (simp add: decode_cop_def Let_def frame_at_def update2_apply fun_eq_iff
        split: prod.splits sum.splits)

lemma decode_cop_pose_state:
  "ManipulandumPosition (decode_cop M sl ati s) = ManipulandumPosition s \<and>
   ManipulandumRotations (decode_cop M sl ati s) = ManipulandumRotations s \<and>
   filterConstant (dex (decode_cop M sl ati s)) = filterConstant (dex s) \<and>
   filteredManipulandumPosition (dex (decode_cop M sl ati s))
     = filteredManipulandumPosition (dex s) \<and>
   filteredManipulandumRotations (dex (decode_cop M sl ati s))
     = filteredManipulandumRotations (dex s)"
  by (simp add: decode_cop_def Let_def FilterCoP_def split: prod.splits sum.splits)

lemma fold_decode_cop_frames:
  "nFrames (fold (decode_cop M sl) atis s) = nFrames s \<and>
   (\<forall>i. i \<noteq> nFrames s \<longrightarrow> frame_at (fold (decode_cop M sl) atis s) i = frame_at s i)"
  by (induction atis arbitrary: s) (simp_all add: decode_cop_frames)

lemma fold_decode_cop_pose_state:
  "ManipulandumPosition (fold (decode_cop M sl) atis s) = ManipulandumPosition s \<and>
   ManipulandumRotations (fold (decode_cop M sl) atis s) = ManipulandumRotations s \<and>
   filterConstant (dex (fold (decode_cop M sl) atis s)) = filterConstant (dex s) \<and>
   filteredManipulandumPosition (dex (fold (decode_cop M sl) atis s))
     = filteredManipulandumPosition (dex s) \<and>
   filteredManipulandumRotations (dex (fold (decode_cop M sl) atis s))
     = filteredManipulandumRotations (dex s)"
  by (induction atis arbitrary: s) (simp_all add: decode_cop_pose_state)

lemma decode_cop_statics:
  "rt_previousTMCounter (decode_cop M sl ati s) = rt_previousTMCounter s \<and>
   buffers_full_alert (decode_cop M sl ati s) = buffers_full_alert s"
  by (simp add: decode_cop_def Let_def split: prod.splits sum.splits)

lemma fold_decode_cop_statics:
  "rt_previousTMCounter (fold (decode_cop M sl) atis s) = rt_previousTMCounter s \<and>
   buffers_full_alert (fold (decode_cop M sl) atis s) = buffers_full_alert s"
  by (induction atis arbitrary: s) (simp_all add: decode_cop_statics)

lemma decode_forces_frames:
  "nFrames (decode_forces M sl s) = nFrames s \<and>
   (\<forall>i. i \<noteq> nFrames s \<longrightarrow> frame_at (decode_forces M sl s) i = frame_at s i)"
proof -
  let ?grip = "float_cast (ComputeGripForce (force (ft sl LEFT_ATI)) (force (ft sl RIGHT_ATI)))"
  let ?left = "- float_cast (vX (force (ft sl LEFT_ATI)))"
  let ?right = "float_cast (vX (force (ft sl RIGHT_ATI)))"
  let ?acc = "Vec3 (float_cast (vX (acceleration sl))) (float_cast (vY (acceleration sl)))
                (float_cast (vZ (acceleration sl)))"
  obtain g d1 where g: "FilterGripForce ?grip (dex s) = (g, d1)"
    by (cases "FilterGripForce ?grip (dex s)")
  obtain nl d2 where nl: "FilterNormalForce M ?left (int LEFT_ATI) d1 = (nl, d2)"
    by (cases "FilterNormalForce M ?left (int LEFT_ATI) d1")
  obtain nr d3 where nr: "FilterNormalForce M ?right (int RIGHT_ATI) d2 = (nr, d3)"
    by (cases "FilterNormalForce M ?right (int RIGHT_ATI) d2")
  obtain ln l where l: "ComputeLoadForce (force (ft sl 0)) (force (ft sl 1)) = (ln, l)"
    by (cases "ComputeLoadForce (force (ft sl 0)) (force (ft sl 1))")
  obtain lm l' d4 where lf: "FilterLoadForce l d3 = (lm, l', d4)"
    by (cases "FilterLoadForce l d3")
  let ?s1 = "s\<lparr> GripForce := (GripForce s)(nFrames s := float_cast g),
                  NormalForce :=
                    update2 (update2 (NormalForce s) LEFT_ATI (nFrames s) (float_cast nl))
                      RIGHT_ATI (nFrames s) (float_cast nr),
                  LoadForce := (LoadForce s)(nFrames s := l'),
                  LoadForceMagnitude := (LoadForceMagnitude s)(nFrames s := lm),
                  dex := d4 \<rparr>"
  let ?s2 = "fold (decode_cop M sl) [0..<nat N_FORCE_TRANSDUCERS] ?s1"
  obtain an a' d5 where af: "FilterAcceleration ?acc (dex ?s2) = (an, a', d5)"
    by (cases "FilterAcceleration ?acc (dex ?s2)")
  have unfold: "decode_forces M sl s
      = ?s2\<lparr> Acceleration := (Acceleration ?s2)(nFrames s := a'), dex := d5 \<rparr>"
    by (simp add: decode_forces_def Let_def g nl nr l lf af del: One_nat_def)
  have s1: "nFrames ?s1 = nFrames s \<and> (\<forall>i. i \<noteq> nFrames s \<longrightarrow> frame_at ?s1 i = frame_at s i)"
    by (simp add: frame_at_def update2_apply fun_eq_iff)
  from fold_decode_cop_frames [of M sl "[0..<nat N_FORCE_TRANSDUCERS]" ?s1] s1
  have s2: "nFrames ?s2 = nFrames s \<and> (\<forall>i. i \<noteq> nFrames s \<longrightarrow> frame_at ?s2 i = frame_at s i)"
    by simp
  have "\<forall>i. i \<noteq> nFrames s \<longrightarrow>
          frame_at (?s2\<lparr> Acceleration := (Acceleration ?s2)(nFrames s := a'), dex := d5 \<rparr>) i
            = frame_at ?s2 i"
    by (simp add: frame_at_def)
  with s2 show ?thesis
    by (simp add: unfold)
qed

lemma decode_forces_pose_state:
  "ManipulandumPosition (decode_forces M sl s) = ManipulandumPosition s \<and>
   ManipulandumRotations (decode_forces M sl s) = ManipulandumRotations s \<and>
   filterConstant (dex (decode_forces M sl s)) = filterConstant (dex s) \<and>
   filteredManipulandumPosition (dex (decode_forces M sl s))
     = filteredManipulandumPosition (dex s) \<and>
   filteredManipulandumRotations (dex (decode_forces M sl s))
     = filteredManipulandumRotations (dex s) \<and>
   rt_previousTMCounter (decode_forces M sl s) = rt_previousTMCounter s \<and>
   buffers_full_alert (decode_forces M sl s) = buffers_full_alert s"
proof -
  let ?grip = "float_cast (ComputeGripForce (force (ft sl LEFT_ATI)) (force (ft sl RIGHT_ATI)))"
  let ?left = "- float_cast (vX (force (ft sl LEFT_ATI)))"
  let ?right = "float_cast (vX (force (ft sl RIGHT_ATI)))"
  let ?acc = "Vec3 (float_cast (vX (acceleration sl))) (float_cast (vY (acceleration sl)))
                (float_cast (vZ (acceleration sl)))"
  obtain g d1 where g: "FilterGripForce ?grip (dex s) = (g, d1)"
    by (cases "FilterGripForce ?grip (dex s)")
  obtain nl d2 where nl: "FilterNormalForce M ?left (int LEFT_ATI) d1 = (nl, d2)"
    by (cases "FilterNormalForce M ?left (int LEFT_ATI) d1")
  obtain nr d3 where nr: "FilterNormalForce M ?right (int RIGHT_ATI) d2 = (nr, d3)"
    by (cases "FilterNormalForce M ?right (int RIGHT_ATI) d2")
  obtain ln l where l: "ComputeLoadForce (force (ft sl 0)) (force (ft sl 1)) = (ln, l)"
    by (cases "ComputeLoadForce (force (ft sl 0)) (force (ft sl 1))")
  obtain lm l' d4 where lf: "FilterLoadForce l d3 = (lm, l', d4)"
    by (cases "FilterLoadForce l d3")
  let ?s1 = "s\<lparr> GripForce := (GripForce s)(nFrames s := float_cast g),
                  NormalForce :=
                    update2 (update2 (NormalForce s) LEFT_ATI (nFrames s) (float_cast nl))
                      RIGHT_ATI (nFrames s) (float_cast nr),
                  LoadForce := (LoadForce s)(nFrames s := l'),
                  LoadForceMagnitude := (LoadForceMagnitude s)(nFrames s := lm),
                  dex := d4 \<rparr>"
  let ?s2 = "fold (decode_cop M sl) [0..<nat N_FORCE_TRANSDUCERS] ?s1"
  obtain an a' d5 where af: "FilterAcceleration ?acc (dex ?s2) = (an, a', d5)"
    by (cases "FilterAcceleration ?acc (dex ?s2)")
  have unfold: "decode_forces M sl s
      = ?s2\<lparr> Acceleration := (Acceleration ?s2)(nFrames s := a'), dex := d5 \<rparr>"
    by (simp add: decode_forces_def Let_def g nl nr l lf af del: One_nat_def)
  have d1: "filterConstant d1 = filterConstant (dex s) \<and>
      filteredManipulandumPosition d1 = filteredManipulandumPosition (dex s) \<and>
      filteredManipulandumRotations d1 = filteredManipulandumRotations (dex s)"
    using g by (auto simp: FilterGripForce_def Let_def)
  have d2: "filterConstant d2 = filterConstant d1 \<and>
      filteredManipulandumPosition d2 = filteredManipulandumPosition d1 \<and>
      filteredManipulandumRotations d2 = filteredManipulandumRotations d1"
    using nl by (auto simp: FilterNormalForce_def Let_def split: if_splits)
  have d3: "filterConstant d3 = filterConstant d2 \<and>
      filteredManipulandumPosition d3 = filteredManipulandumPosition d2 \<and>
      filteredManipulandumRotations d3 = filteredManipulandumRotations d2"
    using nr by (auto simp: FilterNormalForce_def Let_def split: if_splits)
  have d4: "filterConstant d4 = filterConstant d3 \<and>
      filteredManipulandumPosition d4 = filteredManipulandumPosition d3 \<and>
      filteredManipulandumRotations d4 = filteredManipulandumRotations d3"
    using lf by (auto simp: FilterLoadForce_def Let_def)
  have d5: "filterConstant d5 = filterConstant (dex ?s2) \<and>
      filteredManipulandumPosition d5 = filteredManipulandumPosition (dex ?s2) \<and>
      filteredManipulandumRotations d5 = filteredManipulandumRotations (dex ?s2)"
    using af by (auto simp: FilterAcceleration_def Let_def)
  from fold_decode_cop_pose_state [of M sl "[0..<nat N_FORCE_TRANSDUCERS]" ?s1]
  have s2: "ManipulandumPosition ?s2 = ManipulandumPosition s \<and>
      ManipulandumRotations ?s2 = ManipulandumRotations s \<and>
      filterConstant (dex ?s2) = filterConstant d4 \<and>
      filteredManipulandumPosition (dex ?s2) = filteredManipulandumPosition d4 \<and>
      filteredManipulandumRotations (dex ?s2) = filteredManipulandumRotations d4"
    by simp
  from fold_decode_cop_statics [of M sl "[0..<nat N_FORCE_TRANSDUCERS]" ?s1]
  have st: "rt_previousTMCounter ?s2 = rt_previousTMCounter s \<and>
      buffers_full_alert ?s2 = buffers_full_alert s"
    by simp
  from d1 d2 d3 d4 d5 s2 st show ?thesis
    by (simp add: unfold)
qed

lemma mark_group_other_rows:
  "i \<noteq> n \<Longrightarrow> fst (mark_group M sl n first_marker last_marker offset (mv, c)) i = mv i"
proof -
  assume i: "i \<noteq> n"
  have "fst (fold (\<lambda>mrk (mv, count).
             if marker_seen sl mrk then (update2 mv n mrk (real (mrk + offset)), count + 1)
             else (update2 mv n mrk M, count)) ms (mv, c)) i = mv i" for ms
    using i by (induction ms arbitrary: mv c) (simp_all add: update2_def)
  then show ?thesis
    by (simp add: mark_group_def)
qed

lemma decode_markers_frames:
  "nFrames (decode_markers M sl s) = nFrames s \<and>
   dex (decode_markers M sl s) = dex s \<and>
   ManipulandumPosition (decode_markers M sl s) = ManipulandumPosition s \<and>
   ManipulandumRotations (decode_markers M sl s) = ManipulandumRotations s \<and>
   rt_previousTMCounter (decode_markers M sl s) = rt_previousTMCounter s \<and>
   buffers_full_alert (decode_markers M sl s) = buffers_full_alert s \<and>
   (\<forall>i. i \<noteq> nFrames s \<longrightarrow> frame_at (decode_markers M sl s) i = frame_at s i)"
proof -
  let ?n = "nFrames s"
  obtain mv1 c1 where g1: "mark_group M sl ?n MANIPULANDUM_FIRST_MARKER MANIPULANDUM_LAST_MARKER 1
      (MarkerVisibility s, 0) = (mv1, c1)"
    by (cases "mark_group M sl ?n MANIPULANDUM_FIRST_MARKER MANIPULANDUM_LAST_MARKER 1
      (MarkerVisibility s, 0)")
  obtain mv2 c2 where g2: "mark_group M sl ?n FRAME_FIRST_MARKER FRAME_LAST_MARKER 3 (mv1, 0)
      = (mv2, c2)"
    by (cases "mark_group M sl ?n FRAME_FIRST_MARKER FRAME_LAST_MARKER 3 (mv1, 0)")
  obtain mv3 c3 where g3: "mark_group M sl ?n WRIST_FIRST_MARKER WRIST_LAST_MARKER 5 (mv2, 0)
      = (mv3, c3)"
    by (cases "mark_group M sl ?n WRIST_FIRST_MARKER WRIST_LAST_MARKER 5 (mv2, 0)")
  have rows: "\<forall>i. i \<noteq> ?n \<longrightarrow> mv3 i = MarkerVisibility s i"
  proof (intro allI impI)
    fix i assume i: "i \<noteq> ?n"
    from mark_group_other_rows [OF i, of M sl MANIPULANDUM_FIRST_MARKER
           MANIPULANDUM_LAST_MARKER 1 "MarkerVisibility s" 0] g1
    have "mv1 i = MarkerVisibility s i" by simp
    moreover from mark_group_other_rows [OF i, of M sl FRAME_FIRST_MARKER
           FRAME_LAST_MARKER 3 mv1 0] g2
    have "mv2 i = mv1 i" by simp
    moreover from mark_group_other_rows [OF i, of M sl WRIST_FIRST_MARKER
           WRIST_LAST_MARKER 5 mv2 0] g3
    have "mv3 i = mv2 i" by simp
    ultimately show "mv3 i = MarkerVisibility s i" by simp
  qed
  then show ?thesis
    by (simp add: decode_markers_def Let_def g1 g2 g3 frame_at_def del: One_nat_def)
qed

lemma decode_pose_hidden:
  "manipulandumVisibility sl = 0 \<Longrightarrow>
   decode_pose M sl s =
     s\<lparr> ManipulandumPosition := (ManipulandumPosition s)(nFrames s := Vec3 M M M),
        ManipulandumRotations := (ManipulandumRotations s)(nFrames s := Vec3 M M M) \<rparr>"
  by (simp add: decode_pose_def Let_def)

lemma decode_pose_visible:
  "manipulandumVisibility sl \<noteq> 0 \<Longrightarrow>
   decode_pose M sl s =
     s\<lparr> ManipulandumPosition := (ManipulandumPosition s)
          (nFrames s := recursive_filter (filterConstant (dex s))
                          (filteredManipulandumPosition (dex s))
                          (Vec3 (vX (position sl) / 10) (vY (position sl) / 10)
                             (vZ (position sl) / 10))),
        ManipulandumRotations := (ManipulandumRotations s)
          (nFrames s := recursive_filter (filterConstant (dex s))
                          (filteredManipulandumRotations (dex s))
                          (QuaternionToCannonicalRotations (quaternion sl))),
        dex := (dex s)
          \<lparr> filteredManipulandumPosition :=
              recursive_filter (filterConstant (dex s)) (filteredManipulandumPosition (dex s))
                (Vec3 (vX (position sl) / 10) (vY (position sl) / 10) (vZ (position sl) / 10)),
            filteredManipulandumRotations :=
              recursive_filter (filterConstant (dex s)) (filteredManipulandumRotations (dex s))
                (QuaternionToCannonicalRotations (quaternion sl)) \<rparr> \<rparr>"
  by (simp add: decode_pose_def Let_def finite_double_def FilterManipulandumPosition_def
        FilterManipulandumRotations_def)

lemma decode_slice_unfold:
  "decode_slice M sl s =
     (decode_markers M sl (decode_forces M sl (decode_pose M sl
        (s\<lparr> RealMarkerTime := (RealMarkerTime s)(nFrames s := bestGuessPoseTimestamp sl),
            RealAnalogTime := (RealAnalogTime s)(nFrames s := bestGuessAnalogTimestamp sl) \<rparr>))))
       \<lparr> PacketReceived :=
           (PacketReceived (decode_markers M sl (decode_forces M sl (decode_pose M sl
              (s\<lparr> RealMarkerTime := (RealMarkerTime s)(nFrames s := bestGuessPoseTimestamp sl),
                  RealAnalogTime := (RealAnalogTime s)
                    (nFrames s := bestGuessAnalogTimestamp sl) \<rparr>)))))
           (nFrames s := -10),
         nFrames := nFrames s + 1 \<rparr>"
  by (simp add: decode_slice_def Let_def)

lemma decode_slice_frames:
  "nFrames (decode_slice M sl s) = nFrames s + 1 \<and>
   (\<forall>i. i \<noteq> nFrames s \<longrightarrow> frame_at (decode_slice M sl s) i = frame_at s i) \<and>
   PacketReceived (decode_slice M sl s) (nFrames s) = -10"
proof -
  let ?s0 = "s\<lparr> RealMarkerTime := (RealMarkerTime s)(nFrames s := bestGuessPoseTimestamp sl),
            RealAnalogTime := (RealAnalogTime s)(nFrames s := bestGuessAnalogTimestamp sl) \<rparr>"
  let ?s1 = "decode_pose M sl ?s0"
  let ?s2 = "decode_forces M sl ?s1"
  let ?s3 = "decode_markers M sl ?s2"
  have s0: "nFrames ?s0 = nFrames s \<and> (\<forall>i. i \<noteq> nFrames s \<longrightarrow> frame_at ?s0 i = frame_at s i)"
    by (simp add: frame_at_def)
  from decode_pose_frames [of M sl ?s0] s0
  have s1: "nFrames ?s1 = nFrames s \<and> (\<forall>i. i \<noteq> nFrames s \<longrightarrow> frame_at ?s1 i = frame_at s i)"
    by simp
  from decode_forces_frames [of M sl ?s1] s1
  have s2: "nFrames ?s2 = nFrames s \<and> (\<forall>i. i \<noteq> nFrames s \<longrightarrow> frame_at ?s2 i = frame_at s i)"
    by simp
  from decode_markers_frames [of M sl ?s2] s2
  have s3: "nFrames ?s3 = nFrames s \<and> (\<forall>i. i \<noteq> nFrames s \<longrightarrow> frame_at ?s3 i = frame_at s i)"
    by simp
  have "\<forall>i. i \<noteq> nFrames s \<longrightarrow>
          frame_at (?s3\<lparr> PacketReceived := (PacketReceived ?s3)(nFrames s := -10),
                         nFrames := nFrames s + 1 \<rparr>) i = frame_at ?s3 i"
    by (simp add: frame_at_def)
  with s3 show ?thesis
    by (simp add: decode_slice_unfold)
qed

lemma decode_slice_pose:
  "(manipulandumVisibility sl = 0 \<longrightarrow>
      ManipulandumPosition (decode_slice M sl s) (nFrames s) = Vec3 M M M \<and>
      ManipulandumRotations (decode_slice M sl s) (nFrames s) = Vec3 M M M \<and>
      filteredManipulandumPosition (dex (decode_slice M sl s))
        = filteredManipulandumPosition (dex s) \<and>
      filteredManipulandumRotations (dex (decode_slice M sl s))
        = filteredManipulandumRotations (dex s)) \<and>
   (manipulandumVisibility sl \<noteq> 0 \<longrightarrow>
      ManipulandumPosition (decode_slice M sl s) (nFrames s)
        = recursive_filter (filterConstant (dex s)) (filteredManipulandumPosition (dex s))
            (Vec3 (vX (position sl) / 10) (vY (position sl) / 10) (vZ (position sl) / 10)) \<and>
      filteredManipulandumPosition (dex (decode_slice M sl s))
        = ManipulandumPosition (decode_slice M sl s) (nFrames s) \<and>
      ManipulandumRotations (decode_slice M sl s) (nFrames s)
        = recursive_filter (filterConstant (dex s)) (filteredManipulandumRotations (dex s))
            (QuaternionToCannonicalRotations (quaternion sl)) \<and>
      filteredManipulandumRotations (dex (decode_slice M sl s))
        = ManipulandumRotations (decode_slice M sl s) (nFrames s))"
proof -
  let ?s0 = "s\<lparr> RealMarkerTime := (RealMarkerTime s)(nFrames s := bestGuessPoseTimestamp sl),
            RealAnalogTime := (RealAnalogTime s)(nFrames s := bestGuessAnalogTimestamp sl) \<rparr>"
  let ?s1 = "decode_pose M sl ?s0"
  let ?s2 = "decode_forces M sl ?s1"
  let ?s3 = "decode_markers M sl ?s2"
  have later: "ManipulandumPosition (decode_slice M sl s) = ManipulandumPosition ?s1 \<and>
      ManipulandumRotations (decode_slice M sl s) = ManipulandumRotations ?s1 \<and>
      filteredManipulandumPosition (dex (decode_slice M sl s))
        = filteredManipulandumPosition (dex ?s1) \<and>
      filteredManipulandumRotations (dex (decode_slice M sl s))
        = filteredManipulandumRotations (dex ?s1)"
    using decode_forces_pose_state [of M sl ?s1] decode_markers_frames [of M sl ?s2]
    by (simp add: decode_slice_unfold)
  show ?thesis
  proof (cases "manipulandumVisibility sl = 0")
    case True
    with later show ?thesis
      by (simp add: decode_pose_hidden)
  next
    case False
    with later show ?thesis
      by (simp add: decode_pose_visible)
  qed
qed

subsection \<open>Pose of a slice\<close>

text \<open>
  Claim C5, as amended. For a slice whose \<open>manipulandumVisibility\<close> is zero, the recorded
  position and rotations of the frame are the missing sentinel and the filter state for
  position and rotations is as before. For a slice whose flag is not zero, the raw position
  divided by 10 and the canonical rotation angles of the quaternion are the inputs of the
  recursive filter, the filter state for both is updated, and the frame records the
  filtered values, which the filter writes back in place.
\<close>

theorem slice_pose_recorded_through_filter:
  "(manipulandumVisibility sl = 0 \<longrightarrow>
      ManipulandumPosition (decode_slice M sl s) (nFrames s) = Vec3 M M M \<and>
      ManipulandumRotations (decode_slice M sl s) (nFrames s) = Vec3 M M M \<and>
      filteredManipulandumPosition (dex (decode_slice M sl s))
        = filteredManipulandumPosition (dex s) \<and>
      filteredManipulandumRotations (dex (decode_slice M sl s))
        = filteredManipulandumRotations (dex s)) \<and>
   (manipulandumVisibility sl \<noteq> 0 \<longrightarrow>
      ManipulandumPosition (decode_slice M sl s) (nFrames s)
        = recursive_filter (filterConstant (dex s)) (filteredManipulandumPosition (dex s))
            (Vec3 (vX (position sl) / 10) (vY (position sl) / 10) (vZ (position sl) / 10)) \<and>
      filteredManipulandumPosition (dex (decode_slice M sl s))
        = ManipulandumPosition (decode_slice M sl s) (nFrames s) \<and>
      ManipulandumRotations (decode_slice M sl s) (nFrames s)
        = recursive_filter (filterConstant (dex s)) (filteredManipulandumRotations (dex s))
            (QuaternionToCannonicalRotations (quaternion sl)) \<and>
      filteredManipulandumRotations (dex (decode_slice M sl s))
        = ManipulandumRotations (decode_slice M sl s) (nFrames s))"
  by (rule decode_slice_pose)

lemma startup_fields:
  "nFrames GripMMIDesktop_startup = 0"
  "filterConstant (dex GripMMIDesktop_startup) = 100"
  "filteredManipulandumPosition (dex GripMMIDesktop_startup) = Vec3 0 0 0"
  "filteredManipulandumRotations (dex GripMMIDesktop_startup) = Vec3 0 0 0"
  "\<not> buffers_full_alert GripMMIDesktop_startup"
  "rt_previousTMCounter GripMMIDesktop_startup = 0"
  by (simp_all add: GripMMIDesktop_startup_def DexAnalogMixin_init_def SetFilterConstant_def
        zeroVector_def)

lemma sample_slice_fields:
  "manipulandumVisibility hidden_slice = 0"
  "manipulandumVisibility visible_slice = 1"
  "position visible_slice = Vec3 10 20 30"
  "quaternion visible_slice = Quat 0 0 0 1"
  by (simp_all add: hidden_slice_def visible_slice_def nullQuaternion_def)

lemma null_rotations: "QuaternionToCannonicalRotations (Quat 0 0 0 1) = Vec3 0 0 0"
  by (simp add: QuaternionToCannonicalRotations_def atan2_def)

theorem slice_pose_recorded_through_filter_witness:
  "manipulandumVisibility hidden_slice = 0 \<and>
   ManipulandumPosition (decode_slice 999999 hidden_slice GripMMIDesktop_startup) 0
     = Vec3 999999 999999 999999 \<and>
   ManipulandumRotations (decode_slice 999999 hidden_slice GripMMIDesktop_startup) 0
     = Vec3 999999 999999 999999 \<and>
   filteredManipulandumPosition (dex (decode_slice 999999 hidden_slice GripMMIDesktop_startup))
     = Vec3 0 0 0 \<and>
   filteredManipulandumRotations (dex (decode_slice 999999 hidden_slice GripMMIDesktop_startup))
     = Vec3 0 0 0 \<and>
   manipulandumVisibility visible_slice \<noteq> 0 \<and>
   ManipulandumPosition (decode_slice 999999 visible_slice GripMMIDesktop_startup) 0
     = Vec3 (1 / 101) (2 / 101) (3 / 101) \<and>
   filteredManipulandumPosition (dex (decode_slice 999999 visible_slice GripMMIDesktop_startup))
     = Vec3 (1 / 101) (2 / 101) (3 / 101) \<and>
   ManipulandumRotations (decode_slice 999999 visible_slice GripMMIDesktop_startup) 0
     = Vec3 0 0 0 \<and>
   filteredManipulandumRotations (dex (decode_slice 999999 visible_slice GripMMIDesktop_startup))
     = Vec3 0 0 0"
proof -
  have h: "manipulandumVisibility hidden_slice = 0" and v: "manipulandumVisibility visible_slice \<noteq> 0"
    by (simp_all add: sample_slice_fields)
  from slice_pose_recorded_through_filter [of hidden_slice 999999 GripMMIDesktop_startup] h
  have a: "ManipulandumPosition (decode_slice 999999 hidden_slice GripMMIDesktop_startup) 0
       = Vec3 999999 999999 999999 \<and>
     ManipulandumRotations (decode_slice 999999 hidden_slice GripMMIDesktop_startup) 0
       = Vec3 999999 999999 999999 \<and>
     filteredManipulandumPosition (dex (decode_slice 999999 hidden_slice GripMMIDesktop_startup))
       = Vec3 0 0 0 \<and>
     filteredManipulandumRotations (dex (decode_slice 999999 hidden_slice GripMMIDesktop_startup))
       = Vec3 0 0 0"
    by (simp add: startup_fields)
  from slice_pose_recorded_through_filter [of visible_slice 999999 GripMMIDesktop_startup] v
  have b: "ManipulandumPosition (decode_slice 999999 visible_slice GripMMIDesktop_startup) 0
       = Vec3 (1 / 101) (2 / 101) (3 / 101) \<and>
     filteredManipulandumPosition (dex (decode_slice 999999 visible_slice GripMMIDesktop_startup))
       = Vec3 (1 / 101) (2 / 101) (3 / 101) \<and>
     ManipulandumRotations (decode_slice 999999 visible_slice GripMMIDesktop_startup) 0
       = Vec3 0 0 0 \<and>
     filteredManipulandumRotations (dex (decode_slice 999999 visible_slice GripMMIDesktop_startup))
       = Vec3 0 0 0"
    by (simp add: startup_fields sample_slice_fields null_rotations recursive_filter_components
          float_cast_zero float_cast_small_integers)
  from h v a b show ?thesis by blast
qed

text \<open>
  The claim as first stated, that the recorded position equals the raw position divided by
  10, fails on the first visible slice after start: the raw position (10, 20, 30) gives
  (1, 2, 3), and the frame records (1/101, 2/101, 3/101), the output of the filter with
  its constant 100 and zero state.
\<close>

theorem recorded_position_not_raw_tenth:
  "manipulandumVisibility visible_slice \<noteq> 0 \<and>
   Vec3 (vX (position visible_slice) / 10) (vY (position visible_slice) / 10)
        (vZ (position visible_slice) / 10) = Vec3 1 2 3 \<and>
   ManipulandumPosition (decode_slice 999999 visible_slice GripMMIDesktop_startup)
       (nFrames GripMMIDesktop_startup) = Vec3 (1 / 101) (2 / 101) (3 / 101) \<and>
   ManipulandumPosition (decode_slice 999999 visible_slice GripMMIDesktop_startup)
       (nFrames GripMMIDesktop_startup)
     \<noteq> Vec3 (vX (position visible_slice) / 10) (vY (position visible_slice) / 10)
          (vZ (position visible_slice) / 10)"
proof -
  have v: "manipulandumVisibility visible_slice \<noteq> 0"
    by (simp add: sample_slice_fields)
  from decode_slice_pose [of visible_slice 999999 GripMMIDesktop_startup] v
  have "ManipulandumPosition (decode_slice 999999 visible_slice GripMMIDesktop_startup)
       (nFrames GripMMIDesktop_startup) = Vec3 (1 / 101) (2 / 101) (3 / 101)"
    by (simp add: startup_fields sample_slice_fields recursive_filter_components
          float_cast_zero float_cast_small_integers)
  with v show ?thesis
    by (simp add: sample_slice_fields)
qed

subsection \<open>Breaks in the packet stream\<close>

lemma frame_at_PacketReceived:
  "frame_at s' i = frame_at s i \<Longrightarrow> PacketReceived s' i = PacketReceived s i"
  by (simp add: frame_at_def)

lemma decode_slices_effect:
  "nFrames (decode_slices M rt k s)
      = (if nFrames s < MAX_FRAMES
         then min MAX_FRAMES (nFrames s + (RT_SLICES_PER_PACKET - k)) else nFrames s) \<and>
   (\<forall>i<nFrames s. frame_at (decode_slices M rt k s) i = frame_at s i) \<and>
   (k < RT_SLICES_PER_PACKET \<and> nFrames s < MAX_FRAMES
      \<longrightarrow> PacketReceived (decode_slices M rt k s) (nFrames s) = -10)"
proof (induction M rt k s rule: decode_slices.induct)
  case (1 M rt k s)
  show ?case
  proof (cases "k < RT_SLICES_PER_PACKET \<and> nFrames s < MAX_FRAMES")
    case False
    then have "decode_slices M rt k s = s"
      by (subst decode_slices.simps) auto
    with False show ?thesis by auto
  next
    case True
    let ?s1 = "decode_slice M (dataSlice rt k) s"
    let ?r = "decode_slices M rt (k + 1) ?s1"
    have unfold: "decode_slices M rt k s = ?r"
      using True by (subst decode_slices.simps) simp
    note IH = "1.IH" [OF True]
    note step = decode_slice_frames [of M "dataSlice rt k" s]
    have n: "nFrames ?r = min MAX_FRAMES (nFrames s + (RT_SLICES_PER_PACKET - k))"
    proof -
      from IH have "nFrames ?r = (if nFrames ?s1 < MAX_FRAMES
         then min MAX_FRAMES (nFrames ?s1 + (RT_SLICES_PER_PACKET - (k + 1))) else nFrames ?s1)"
        by blast
      moreover from step have "nFrames ?s1 = nFrames s + 1" by blast
      ultimately show ?thesis
        using True by (simp split: if_splits)
    qed
    have kept1: "\<forall>i<nFrames s + 1. frame_at ?r i = frame_at ?s1 i"
      using IH step by simp
    have kept: "\<forall>i<nFrames s. frame_at ?r i = frame_at s i"
      using kept1 step by simp
    have "frame_at ?r (nFrames s) = frame_at ?s1 (nFrames s)"
      using kept1 by simp
    then have "PacketReceived ?r (nFrames s) = PacketReceived ?s1 (nFrames s)"
      by (rule frame_at_PacketReceived)
    with step have first: "PacketReceived ?r (nFrames s) = -10"
      by simp
    from n kept first True show ?thesis
      by (simp only: unfold) simp
  qed
qed


lemma decode_packet_break:
  assumes brk: "packetTimestamp rt - previous_packet_timestamp > PACKET_STREAM_BREAK_THRESHOLD"
    and room: "nFrames s < MAX_FRAMES"
  shows "fst (decode_packet M rt previous_packet_timestamp s)
           = decode_slices M rt 0 (insert_blank_frames M 0 s) \<and>
         nFrames (insert_blank_frames M 0 s)
           = nFrames s + min MAX_PLOT_STEP (MAX_FRAMES - 1 - nFrames s) \<and>
         dex (insert_blank_frames M 0 s) = dex s \<and>
         (\<forall>i. nFrames s \<le> i \<and> i < nFrames s + min MAX_PLOT_STEP (MAX_FRAMES - 1 - nFrames s)
            \<longrightarrow> blank_at M (fst (decode_packet M rt previous_packet_timestamp s)) i) \<and>
         (\<forall>i<nFrames s.
            frame_at (fst (decode_packet M rt previous_packet_timestamp s)) i = frame_at s i) \<and>
         PacketReceived (fst (decode_packet M rt previous_packet_timestamp s))
            (nFrames s + min MAX_PLOT_STEP (MAX_FRAMES - 1 - nFrames s)) = -10 \<and>
         nFrames (fst (decode_packet M rt previous_packet_timestamp s))
           = min MAX_FRAMES (nFrames s + min MAX_PLOT_STEP (MAX_FRAMES - 1 - nFrames s)
                               + RT_SLICES_PER_PACKET)"
proof -
  let ?c = "min MAX_PLOT_STEP (MAX_FRAMES - 1 - nFrames s)"
  let ?s1 = "insert_blank_frames M 0 s"
  let ?r = "decode_slices M rt 0 ?s1"
  have unfold: "fst (decode_packet M rt previous_packet_timestamp s) = ?r"
    using brk by (simp add: decode_packet_def Let_def)
  note ins = insert_blank_frames_effect [of M 0 s]
  note dec = decode_slices_effect [of M rt 0 ?s1]
  from ins have n1: "nFrames ?s1 = nFrames s + ?c" by simp
  from ins have d1: "dex ?s1 = dex s" by blast
  from n1 room have room1: "nFrames ?s1 < MAX_FRAMES" by arith
  have slices: "0 < RT_SLICES_PER_PACKET" by (simp add: RT_SLICES_PER_PACKET_def)
  have blanks: "\<forall>i. nFrames s \<le> i \<and> i < nFrames s + ?c \<longrightarrow> blank_at M ?r i"
  proof (intro allI impI)
    fix i assume i: "nFrames s \<le> i \<and> i < nFrames s + ?c"
    with n1 have lt: "i < nFrames ?s1" by simp
    with dec have "frame_at ?r i = frame_at ?s1 i" by blast
    then have "blank_at M ?r i = blank_at M ?s1 i" by (rule blank_at_frame_at)
    moreover from ins i n1 have "blank_at M ?s1 i" by simp
    ultimately show "blank_at M ?r i" by simp
  qed
  have kept: "\<forall>i<nFrames s. frame_at ?r i = frame_at s i"
  proof (intro allI impI)
    fix i assume i: "i < nFrames s"
    with n1 have "i < nFrames ?s1" by simp
    with dec have "frame_at ?r i = frame_at ?s1 i" by blast
    moreover from ins i have "frame_at ?s1 i = frame_at s i" by blast
    ultimately show "frame_at ?r i = frame_at s i" by simp
  qed
  from dec room1 slices have first: "PacketReceived ?r (nFrames ?s1) = -10" by blast
  from dec room1 have n: "nFrames ?r = min MAX_FRAMES (nFrames ?s1 + RT_SLICES_PER_PACKET)"
    by simp
  from n1 d1 blanks kept first n show ?thesis
    by (simp only: unfold)
qed





subsection \<open>A full buffer stops ingestion\<close>

lemma nFrames_decode_packet:
  assumes "nFrames s < MAX_FRAMES"
  shows "min MAX_FRAMES (nFrames s + RT_SLICES_PER_PACKET)
           \<le> nFrames (fst (decode_packet M rt previous_packet_timestamp s)) \<and>
         nFrames (fst (decode_packet M rt previous_packet_timestamp s)) \<le> MAX_FRAMES"
proof (cases "packetTimestamp rt - previous_packet_timestamp > PACKET_STREAM_BREAK_THRESHOLD")
  case True
  from decode_packet_break [OF True assms, of M]
  have "nFrames (fst (decode_packet M rt previous_packet_timestamp s))
          = min MAX_FRAMES (nFrames s + min MAX_PLOT_STEP (MAX_FRAMES - 1 - nFrames s)
                              + RT_SLICES_PER_PACKET)"
    by blast
  then show ?thesis
    by simp
next
  case False
  then have "fst (decode_packet M rt previous_packet_timestamp s) = decode_slices M rt 0 s"
    by (simp add: decode_packet_def)
  with decode_slices_effect [of M rt 0 s] assms show ?thesis
    by simp
qed

lemma read_rt_packets_fills:
  "\<forall>r\<in>set rs. valid_rt_read r \<Longrightarrow> nFrames (rs_desk st) \<le> MAX_FRAMES \<Longrightarrow>
   \<exists>st'. read_rt_packets M rs st = Inr st' \<and>
         min MAX_FRAMES (nFrames (rs_desk st) + RT_SLICES_PER_PACKET * length rs)
           \<le> nFrames (rs_desk st')"
proof (induction rs arbitrary: st)
  case Nil
  then show ?case by simp
next
  case (Cons r rs)
  show ?case
  proof (cases "nFrames (rs_desk st) < MAX_FRAMES")
    case False
    with Cons.prems show ?thesis by simp
  next
    case True
    let ?d = "decode_packet M (rd_info r) (rs_previous_packet_timestamp st) (rs_desk st)"
    let ?st1 = "st\<lparr> rs_desk := fst ?d, rs_previous_packet_timestamp := snd ?d,
                      rs_epmHeader := rd_header r, rs_rt := rd_info r,
                      rs_packets_read := rs_packets_read st + 1,
                      rs_trace := rs_trace st @ [EvRead] \<rparr>"
    from Cons.prems have v: "valid_rt_read r" and vs: "\<forall>r\<in>set rs. valid_rt_read r"
      by simp_all
    have unfold: "read_rt_packets M (r # rs) st = read_rt_packets M rs ?st1"
      using True v by (simp add: valid_rt_read_def Let_def rtPacketLengthInBytes_def)
    note d = nFrames_decode_packet [OF True, of M "rd_info r" "rs_previous_packet_timestamp st"]
    from d have le: "nFrames (rs_desk ?st1) \<le> MAX_FRAMES" by simp
    from Cons.IH [OF vs le] obtain st' where
      r: "read_rt_packets M rs ?st1 = Inr st'" and
      n: "min MAX_FRAMES (nFrames (rs_desk ?st1) + RT_SLICES_PER_PACKET * length rs)
            \<le> nFrames (rs_desk st')"
      by blast
    from d have "min MAX_FRAMES (nFrames (rs_desk st) + RT_SLICES_PER_PACKET)
                   \<le> nFrames (rs_desk ?st1)"
      by simp
    with n have "min MAX_FRAMES (nFrames (rs_desk st) + RT_SLICES_PER_PACKET * length (r # rs))
                   \<le> nFrames (rs_desk st')"
      by simp
    with r unfold show ?thesis by simp
  qed
qed

lemma GetGripRT_full_sets_alert:
  assumes "GetGripRT M cache s = (Inr (r, s'), tr)" and "MAX_FRAMES \<le> nFrames s'"
  shows "buffers_full_alert s'"
  using assms
  by (auto simp: GetGripRT_def Let_def split: if_splits sum.splits prod.splits)

lemma GetGripRT_when_alert:
  "buffers_full_alert s \<Longrightarrow>
   GetGripRT M cache s =
     (Inr (FALSE, s\<lparr>dataLiveCheckbox_Checked := False, dataLiveCheckbox_Enabled := False\<rparr>), [])"
  by (simp add: GetGripRT_def)

lemma GetGripRT_calls_when_alert:
  "buffers_full_alert s \<Longrightarrow>
   GetGripRT_calls M caches s =
     map (\<lambda>cache. (Inr (FALSE, s\<lparr>dataLiveCheckbox_Checked := False,
                                  dataLiveCheckbox_Enabled := False\<rparr>), [])) caches"
proof (induction caches arbitrary: s)
  case Nil
  show ?case by simp
next
  case (Cons cache caches)
  let ?s1 = "s\<lparr>dataLiveCheckbox_Checked := False, dataLiveCheckbox_Enabled := False\<rparr>"
  from Cons.prems have "buffers_full_alert ?s1" by simp
  from Cons.IH [OF this] Cons.prems show ?case
    by (simp add: GetGripRT_when_alert)
qed

text \<open>
  Claim C2. When a call of \<open>GetGripRT\<close> returns with the frame count at \<open>MAX_FRAMES\<close> or
  above, the buffer-full flag is set, and every later call, whatever the cache file holds,
  returns \<open>FALSE\<close> with no call outside the process (the file is not opened, nothing
  is read or decoded) and leaves the state as it was but for the live-mode checkbox, which
  it unchecks and disables: the frame count and every frame of the sample buffers are
  unchanged.
\<close>

theorem buffer_full_halts_ingestion:
  assumes "GetGripRT M cache s = (Inr (r, s'), tr)" and "MAX_FRAMES \<le> nFrames s'"
  shows "buffers_full_alert s' \<and>
         (\<forall>caches. GetGripRT_calls M caches s' =
            map (\<lambda>cache. (Inr (FALSE, s'\<lparr>dataLiveCheckbox_Checked := False,
                                          dataLiveCheckbox_Enabled := False\<rparr>), [])) caches) \<and>
         nFrames (s'\<lparr>dataLiveCheckbox_Checked := False, dataLiveCheckbox_Enabled := False\<rparr>)
           = nFrames s' \<and>
         (\<forall>i. frame_at (s'\<lparr>dataLiveCheckbox_Checked := False,
                             dataLiveCheckbox_Enabled := False\<rparr>) i = frame_at s' i)"
proof -
  from assms have a: "buffers_full_alert s'" by (rule GetGripRT_full_sets_alert)
  from a have "\<forall>caches. GetGripRT_calls M caches s' =
            map (\<lambda>cache. (Inr (FALSE, s'\<lparr>dataLiveCheckbox_Checked := False,
                                          dataLiveCheckbox_Enabled := False\<rparr>), [])) caches"
    by (simp add: GetGripRT_calls_when_alert)
  with a show ?thesis
    by (simp add: frame_at_def)
qed

lemma GetGripRT_fills:
  assumes alert: "\<not> buffers_full_alert s"
    and opens: "0 \<le> rtc_sopen cache 0"
    and closes: "rtc_close cache = 0"
    and valid: "\<forall>r\<in>set (rtc_reads cache). valid_rt_read r"
    and many: "MAX_FRAMES \<le> RT_SLICES_PER_PACKET * length (rtc_reads cache)"
  shows "\<exists>r s' tr. GetGripRT M cache s = (Inr (r, s'), tr) \<and> MAX_FRAMES \<le> nFrames s'"
proof -
  let ?st0 = "\<lparr> rs_desk = ResetBuffers s, rs_previous_packet_timestamp = 0,
                rs_epmHeader = rtc_uninit_epmHeader cache, rs_rt = rtc_uninit_rt cache,
                rs_packets_read = 0, rs_trace = [EvOpen] \<rparr>"
  have pos: "0 < MAX_OPEN_CACHE_RETRIES" by (simp add: MAX_OPEN_CACHE_RETRIES_def)
  have opened: "open_cache (rtc_sopen cache) 0 (rtc_uninit_fid cache) []
                  = (rtc_sopen cache 0, [EvOpen])"
    using open_cache_first_success [where k = 0 and sopen = "rtc_sopen cache"
            and retry_count = 0 and fid = "rtc_uninit_fid cache" and tr = "[]"] pos opens
    by simp
  have start: "nFrames (rs_desk ?st0) \<le> MAX_FRAMES"
    by (simp add: ResetBuffers_def)
  from read_rt_packets_fills [OF valid start, of M] obtain st' where
    r: "read_rt_packets M (rtc_reads cache) ?st0 = Inr st'" and
    n: "min MAX_FRAMES (nFrames (rs_desk ?st0)
          + RT_SLICES_PER_PACKET * length (rtc_reads cache)) \<le> nFrames (rs_desk st')"
    by blast
  from n many have full: "MAX_FRAMES \<le> nFrames (rs_desk st')"
    by (simp add: ResetBuffers_def)
  show ?thesis
  proof (cases "rt_previousTMCounter (rs_desk st') \<noteq> TMCounter (rs_epmHeader st')")
    case True
    with alert opens closes opened r full show ?thesis
      by (simp add: GetGripRT_def Let_def)
  next
    case False
    with alert opens closes opened r full show ?thesis
      by (simp add: GetGripRT_def Let_def)
  qed
qed

theorem buffer_full_halts_ingestion_witness:
  "\<exists>r s' tr.
     GetGripRT 999999
        (cache_of (\<lambda>k. 3) (replicate 86400 (rt_record 1 (packet_of 0 hidden_slice))) 0)
        GripMMIDesktop_startup = (Inr (r, s'), tr) \<and>
     MAX_FRAMES \<le> nFrames s' \<and>
     buffers_full_alert s' \<and>
     GetGripRT_calls 999999
        [cache_of (\<lambda>k. 3) [rt_record 2 (packet_of 5 visible_slice)] 0,
         cache_of (\<lambda>k. 3) [] 7] s'
       = [(Inr (FALSE, s'\<lparr>dataLiveCheckbox_Checked := False,
                           dataLiveCheckbox_Enabled := False\<rparr>), []),
          (Inr (FALSE, s'\<lparr>dataLiveCheckbox_Checked := False,
                           dataLiveCheckbox_Enabled := False\<rparr>), [])]"
proof -
  let ?cache = "cache_of (\<lambda>k. 3) (replicate 86400 (rt_record 1 (packet_of 0 hidden_slice))) 0"
  have v: "valid_rt_read (rt_record 1 (packet_of 0 hidden_slice))"
    by (simp add: valid_rt_read_def rt_record_def rtHeader_def)
  have "\<exists>r s' tr. GetGripRT 999999 ?cache GripMMIDesktop_startup = (Inr (r, s'), tr)
          \<and> MAX_FRAMES \<le> nFrames s'"
  proof (rule GetGripRT_fills)
    show "\<not> buffers_full_alert GripMMIDesktop_startup" by (simp add: startup_fields)
    show "0 \<le> rtc_sopen ?cache 0" by (simp add: cache_of_def)
    show "rtc_close ?cache = 0" by (simp add: cache_of_def)
    show "\<forall>r\<in>set (rtc_reads ?cache). valid_rt_read r" using v by (simp add: cache_of_def)
    show "MAX_FRAMES \<le> RT_SLICES_PER_PACKET * length (rtc_reads ?cache)"
      by (simp add: cache_of_def MAX_FRAMES_def RT_SLICES_PER_PACKET_def)
  qed
  then obtain r s' tr where
    pass: "GetGripRT 999999 ?cache GripMMIDesktop_startup = (Inr (r, s'), tr)" and
    full: "MAX_FRAMES \<le> nFrames s'"
    by blast
  note t = buffer_full_halts_ingestion [OF pass full]
  from t have alert: "buffers_full_alert s'" by blast
  from t have "GetGripRT_calls 999999
        [cache_of (\<lambda>k. 3) [rt_record 2 (packet_of 5 visible_slice)] 0,
         cache_of (\<lambda>k. 3) [] 7] s'
       = map (\<lambda>cache. (Inr (FALSE, s'\<lparr>dataLiveCheckbox_Checked := False,
                                          dataLiveCheckbox_Enabled := False\<rparr>), []))
           [cache_of (\<lambda>k. 3) [rt_record 2 (packet_of 5 visible_slice)] 0,
            cache_of (\<lambda>k. 3) [] 7]"
    by blast
  with alert have "buffers_full_alert s' \<and>
     GetGripRT_calls 999999
        [cache_of (\<lambda>k. 3) [rt_record 2 (packet_of 5 visible_slice)] 0,
         cache_of (\<lambda>k. 3) [] 7] s'
       = [(Inr (FALSE, s'\<lparr>dataLiveCheckbox_Checked := False,
                           dataLiveCheckbox_Enabled := False\<rparr>), []),
          (Inr (FALSE, s'\<lparr>dataLiveCheckbox_Checked := False,
                           dataLiveCheckbox_Enabled := False\<rparr>), [])]"
    by (simp only: list.map)
  with pass full show ?thesis by blast
qed

subsection \<open>A break met near the capacity of the buffers\<close>

lemma read_rt_packets_step:
  assumes "valid_rt_read r" and "nFrames (rs_desk st) < MAX_FRAMES"
  shows "read_rt_packets M (r # rs) st =
           read_rt_packets M rs
             (st\<lparr> rs_desk := fst (decode_packet M (rd_info r)
                                    (rs_previous_packet_timestamp st) (rs_desk st)),
                  rs_previous_packet_timestamp := packetTimestamp (rd_info r),
                  rs_epmHeader := rd_header r, rs_rt := rd_info r,
                  rs_packets_read := rs_packets_read st + 1,
                  rs_trace := rs_trace st @ [EvRead] \<rparr>)"
  using assms
  by (simp add: valid_rt_read_def Let_def rtPacketLengthInBytes_def decode_packet_def)

lemma nFrames_decode_packet_steady:
  assumes "\<not> packetTimestamp rt - previous_packet_timestamp > PACKET_STREAM_BREAK_THRESHOLD"
    and "nFrames s + RT_SLICES_PER_PACKET \<le> MAX_FRAMES"
  shows "nFrames (fst (decode_packet M rt previous_packet_timestamp s))
           = nFrames s + RT_SLICES_PER_PACKET"
proof -
  from assms(1) have "fst (decode_packet M rt previous_packet_timestamp s)
      = decode_slices M rt 0 s"
    by (simp add: decode_packet_def)
  moreover from assms(2) have "nFrames s < MAX_FRAMES"
    by (simp add: RT_SLICES_PER_PACKET_def)
  ultimately show ?thesis
    using decode_slices_effect [of M rt 0 s] assms(2) by simp
qed

lemma nFrames_decode_packet_break:
  assumes "packetTimestamp rt - previous_packet_timestamp > PACKET_STREAM_BREAK_THRESHOLD"
    and "nFrames s + MAX_PLOT_STEP + RT_SLICES_PER_PACKET \<le> MAX_FRAMES"
  shows "nFrames (fst (decode_packet M rt previous_packet_timestamp s))
           = nFrames s + MAX_PLOT_STEP + RT_SLICES_PER_PACKET"
proof -
  from assms(2) have room: "nFrames s < MAX_FRAMES"
    by (simp add: RT_SLICES_PER_PACKET_def)
  from assms(2) have c: "min MAX_PLOT_STEP (MAX_FRAMES - 1 - nFrames s) = MAX_PLOT_STEP"
    by (simp add: RT_SLICES_PER_PACKET_def)
  from decode_packet_break [OF assms(1) room, of M]
  have "nFrames (fst (decode_packet M rt previous_packet_timestamp s))
          = min MAX_FRAMES (nFrames s + min MAX_PLOT_STEP (MAX_FRAMES - 1 - nFrames s)
                              + RT_SLICES_PER_PACKET)"
    by blast
  with assms(2) show ?thesis
    by (simp only: c)
qed

lemma read_rt_packets_steady_run:
  assumes v: "valid_rt_read r"
  shows "rs_previous_packet_timestamp st = packetTimestamp (rd_info r) \<Longrightarrow>
         nFrames (rs_desk st) + RT_SLICES_PER_PACKET * n \<le> MAX_FRAMES \<Longrightarrow>
         \<exists>st'. read_rt_packets M (replicate n r @ rest) st = read_rt_packets M rest st' \<and>
               nFrames (rs_desk st') = nFrames (rs_desk st) + RT_SLICES_PER_PACKET * n \<and>
               rs_previous_packet_timestamp st' = packetTimestamp (rd_info r)"
proof (induction n arbitrary: st)
  case 0
  then show ?case by auto
next
  case (Suc n)
  let ?st1 = "st\<lparr> rs_desk := fst (decode_packet M (rd_info r)
                                    (rs_previous_packet_timestamp st) (rs_desk st)),
                  rs_previous_packet_timestamp := packetTimestamp (rd_info r),
                  rs_epmHeader := rd_header r, rs_rt := rd_info r,
                  rs_packets_read := rs_packets_read st + 1,
                  rs_trace := rs_trace st @ [EvRead] \<rparr>"
  from Suc.prems(2) have fits1: "nFrames (rs_desk st) + RT_SLICES_PER_PACKET \<le> MAX_FRAMES"
    by simp
  then have room: "nFrames (rs_desk st) < MAX_FRAMES"
    by (simp add: RT_SLICES_PER_PACKET_def)
  from Suc.prems(1)
  have steady: "\<not> packetTimestamp (rd_info r) - rs_previous_packet_timestamp st
                    > PACKET_STREAM_BREAK_THRESHOLD"
    by (simp add: PACKET_STREAM_BREAK_THRESHOLD_def)
  have n1: "nFrames (rs_desk ?st1) = nFrames (rs_desk st) + RT_SLICES_PER_PACKET"
    using nFrames_decode_packet_steady [OF steady fits1, of M] by simp
  have p1: "rs_previous_packet_timestamp ?st1 = packetTimestamp (rd_info r)"
    by simp
  from Suc.prems(2) n1
  have fits: "nFrames (rs_desk ?st1) + RT_SLICES_PER_PACKET * n \<le> MAX_FRAMES"
    by simp
  from Suc.IH [OF p1 fits] obtain st' where
    "read_rt_packets M (replicate n r @ rest) ?st1 = read_rt_packets M rest st'"
    "nFrames (rs_desk st') = nFrames (rs_desk ?st1) + RT_SLICES_PER_PACKET * n"
    "rs_previous_packet_timestamp st' = packetTimestamp (rd_info r)"
    by blast
  with n1 read_rt_packets_step [OF v room, of M "replicate n r @ rest"] show ?case
    by (intro exI [of _ st']) simp
qed

lemma read_rt_packets_break_step:
  assumes v: "valid_rt_read r"
    and brk: "packetTimestamp (rd_info r) - rs_previous_packet_timestamp st
                > PACKET_STREAM_BREAK_THRESHOLD"
    and fits: "nFrames (rs_desk st) + MAX_PLOT_STEP + RT_SLICES_PER_PACKET \<le> MAX_FRAMES"
  shows "\<exists>st'. read_rt_packets M (r # rs) st = read_rt_packets M rs st' \<and>
               nFrames (rs_desk st') = nFrames (rs_desk st) + MAX_PLOT_STEP + RT_SLICES_PER_PACKET \<and>
               rs_previous_packet_timestamp st' = packetTimestamp (rd_info r)"
proof -
  let ?st1 = "st\<lparr> rs_desk := fst (decode_packet M (rd_info r)
                                    (rs_previous_packet_timestamp st) (rs_desk st)),
                  rs_previous_packet_timestamp := packetTimestamp (rd_info r),
                  rs_epmHeader := rd_header r, rs_rt := rd_info r,
                  rs_packets_read := rs_packets_read st + 1,
                  rs_trace := rs_trace st @ [EvRead] \<rparr>"
  from fits have room: "nFrames (rs_desk st) < MAX_FRAMES"
    by (simp add: RT_SLICES_PER_PACKET_def)
  from nFrames_decode_packet_break [OF brk fits, of M]
  have "nFrames (rs_desk ?st1) = nFrames (rs_desk st) + MAX_PLOT_STEP + RT_SLICES_PER_PACKET"
    by simp
  with read_rt_packets_step [OF v room, of M rs] show ?thesis
    by (intro exI [of _ ?st1]) simp
qed

lemma valid_rt_record: "valid_rt_read (rt_record counter info)"
  by (simp add: valid_rt_read_def rt_record_def rtHeader_def)

text \<open>
  The frame count 863994 at a break, used above, does arise in a pass: three packets that
  each follow a silence, 86394 packets in a steady stream, then a packet after another
  silence. The pass ends with the buffer full, frames 863994 to 863998 blank and the
  first slice of the last packet in frame 863999.
\<close>

lemma break_near_capacity_in_a_pass:
  "\<exists>st'. read_rt_packets 999999
            ([rt_record 1 (packet_of 2 hidden_slice), rt_record 2 (packet_of 4 hidden_slice),
              rt_record 3 (packet_of 6 hidden_slice)]
             @ replicate 86394 (rt_record 4 (packet_of 6 hidden_slice))
             @ [rt_record 5 (packet_of 8 hidden_slice)])
            \<lparr> rs_desk = ResetBuffers GripMMIDesktop_startup, rs_previous_packet_timestamp = 0,
              rs_epmHeader = rtHeader \<lparr> TMCounter := 0 \<rparr>, rs_rt = packet_of 0 hidden_slice,
              rs_packets_read = 0, rs_trace = [EvOpen] \<rparr> = Inr st' \<and>
         nFrames (rs_desk st') = MAX_FRAMES \<and>
         (\<forall>i. 863994 \<le> i \<and> i < 863999 \<longrightarrow> blank_at 999999 (rs_desk st') i) \<and>
         PacketReceived (rs_desk st') 863999 = -10"
proof -
  let ?M = "999999 :: real"
  let ?run = "replicate 86394 (rt_record 4 (packet_of 6 hidden_slice))"
  let ?last = "rt_record 5 (packet_of 8 hidden_slice)"
  let ?st0 = "\<lparr> rs_desk = ResetBuffers GripMMIDesktop_startup, rs_previous_packet_timestamp = 0,
              rs_epmHeader = rtHeader \<lparr> TMCounter := 0 \<rparr>, rs_rt = packet_of 0 hidden_slice,
              rs_packets_read = 0, rs_trace = [EvOpen] \<rparr>"
  note nums = MAX_FRAMES_def MAX_PLOT_STEP_def RT_SLICES_PER_PACKET_def
    PACKET_STREAM_BREAK_THRESHOLD_def
  have info: "rd_info (rt_record c p) = p" "packetTimestamp (packet_of t sl) = t" for c p t sl
    by (simp_all add: rt_record_def packet_of_def)
  have "\<exists>st1. read_rt_packets ?M
            (rt_record 1 (packet_of 2 hidden_slice)
             # rt_record 2 (packet_of 4 hidden_slice) # rt_record 3 (packet_of 6 hidden_slice)
             # ?run @ [?last]) ?st0
          = read_rt_packets ?M
              (rt_record 2 (packet_of 4 hidden_slice) # rt_record 3 (packet_of 6 hidden_slice)
               # ?run @ [?last]) st1 \<and>
        nFrames (rs_desk st1) = nFrames (rs_desk ?st0) + MAX_PLOT_STEP + RT_SLICES_PER_PACKET \<and>
        rs_previous_packet_timestamp st1 = packetTimestamp (rd_info (rt_record 1 (packet_of 2 hidden_slice)))"
    by (rule read_rt_packets_break_step [OF valid_rt_record])
       (simp_all add: info nums ResetBuffers_def)
  then obtain st1 where
    e1: "read_rt_packets ?M
            (rt_record 1 (packet_of 2 hidden_slice)
             # rt_record 2 (packet_of 4 hidden_slice) # rt_record 3 (packet_of 6 hidden_slice)
             # ?run @ [?last]) ?st0
          = read_rt_packets ?M
              (rt_record 2 (packet_of 4 hidden_slice) # rt_record 3 (packet_of 6 hidden_slice)
               # ?run @ [?last]) st1"
    and n1: "nFrames (rs_desk st1) = 18" and p1: "rs_previous_packet_timestamp st1 = 2"
    by (auto simp: info nums ResetBuffers_def)
  have "\<exists>st2. read_rt_packets ?M
              (rt_record 2 (packet_of 4 hidden_slice) # rt_record 3 (packet_of 6 hidden_slice)
               # ?run @ [?last]) st1
          = read_rt_packets ?M (rt_record 3 (packet_of 6 hidden_slice) # ?run @ [?last]) st2 \<and>
        nFrames (rs_desk st2) = nFrames (rs_desk st1) + MAX_PLOT_STEP + RT_SLICES_PER_PACKET \<and>
        rs_previous_packet_timestamp st2 = packetTimestamp (rd_info (rt_record 2 (packet_of 4 hidden_slice)))"
    by (rule read_rt_packets_break_step [OF valid_rt_record])
       (simp_all add: info nums n1 p1)
  then obtain st2 where
    e2: "read_rt_packets ?M
              (rt_record 2 (packet_of 4 hidden_slice) # rt_record 3 (packet_of 6 hidden_slice)
               # ?run @ [?last]) st1
          = read_rt_packets ?M (rt_record 3 (packet_of 6 hidden_slice) # ?run @ [?last]) st2"
    and n2: "nFrames (rs_desk st2) = 36" and p2: "rs_previous_packet_timestamp st2 = 4"
    by (auto simp: info nums n1)
  have "\<exists>st3. read_rt_packets ?M (rt_record 3 (packet_of 6 hidden_slice) # ?run @ [?last]) st2
          = read_rt_packets ?M (?run @ [?last]) st3 \<and>
        nFrames (rs_desk st3) = nFrames (rs_desk st2) + MAX_PLOT_STEP + RT_SLICES_PER_PACKET \<and>
        rs_previous_packet_timestamp st3 = packetTimestamp (rd_info (rt_record 3 (packet_of 6 hidden_slice)))"
    by (rule read_rt_packets_break_step [OF valid_rt_record])
       (simp_all add: info nums n2 p2)
  then obtain st3 where
    e3: "read_rt_packets ?M (rt_record 3 (packet_of 6 hidden_slice) # ?run @ [?last]) st2
          = read_rt_packets ?M (?run @ [?last]) st3"
    and n3: "nFrames (rs_desk st3) = 54" and p3: "rs_previous_packet_timestamp st3 = 6"
    by (auto simp: info nums n2)
  have "\<exists>st4. read_rt_packets ?M (?run @ [?last]) st3 = read_rt_packets ?M [?last] st4 \<and>
        nFrames (rs_desk st4) = nFrames (rs_desk st3) + RT_SLICES_PER_PACKET * 86394 \<and>
        rs_previous_packet_timestamp st4
          = packetTimestamp (rd_info (rt_record 4 (packet_of 6 hidden_slice)))"
    by (rule read_rt_packets_steady_run [OF valid_rt_record])
       (simp_all add: info nums n3 p3)
  then obtain st4 where
    e4: "read_rt_packets ?M (?run @ [?last]) st3 = read_rt_packets ?M [?last] st4"
    and n4: "nFrames (rs_desk st4) = 863994" and p4: "rs_previous_packet_timestamp st4 = 6"
    by (auto simp: info nums n3)
  let ?d = "fst (decode_packet ?M (packet_of 8 hidden_slice) 6 (rs_desk st4))"
  let ?st5 = "st4\<lparr> rs_desk := ?d,
                  rs_previous_packet_timestamp := 8,
                  rs_epmHeader := rd_header ?last, rs_rt := rd_info ?last,
                  rs_packets_read := rs_packets_read st4 + 1,
                  rs_trace := rs_trace st4 @ [EvRead] \<rparr>"
  have room: "nFrames (rs_desk st4) < MAX_FRAMES" by (simp add: n4 nums)
  have brk: "packetTimestamp (packet_of 8 hidden_slice) - 6 > PACKET_STREAM_BREAK_THRESHOLD"
    by (simp add: info nums)
  note d = decode_packet_break [OF brk room, where M = ?M, THEN conjunct2]
  from d have blanks: "\<forall>i. 863994 \<le> i \<and> i < 863999 \<longrightarrow> blank_at ?M ?d i"
    by (simp add: n4 nums)
  from d have slice: "PacketReceived ?d 863999 = -10"
    by (simp add: n4 nums)
  from d have full: "nFrames ?d = MAX_FRAMES"
    by (simp add: n4 nums)
  have e5: "read_rt_packets ?M [?last] st4 = Inr ?st5"
    using read_rt_packets_step [OF valid_rt_record room, of ?M 5 "packet_of 8 hidden_slice" "[]"]
      full
    by (simp add: info p4)
  from e1 e2 e3 e4 e5 have "read_rt_packets ?M
            ([rt_record 1 (packet_of 2 hidden_slice), rt_record 2 (packet_of 4 hidden_slice),
              rt_record 3 (packet_of 6 hidden_slice)] @ ?run @ [?last]) ?st0 = Inr ?st5"
    by simp
  with blanks slice full show ?thesis
    by (intro exI [of _ ?st5]) simp
qed

lemma break_near_capacity_in_GetGripRT:
  "\<exists>r s' tr.
     GetGripRT 999999
       (cache_of (\<lambda>k. 3)
          ([rt_record 1 (packet_of 2 hidden_slice), rt_record 2 (packet_of 4 hidden_slice),
            rt_record 3 (packet_of 6 hidden_slice)]
           @ replicate 86394 (rt_record 4 (packet_of 6 hidden_slice))
           @ [rt_record 5 (packet_of 8 hidden_slice)]) 0)
       GripMMIDesktop_startup = (Inr (r, s'), tr) \<and>
     nFrames s' = MAX_FRAMES \<and>
     (\<forall>i. 863994 \<le> i \<and> i < 863999 \<longrightarrow> blank_at 999999 s' i) \<and>
     PacketReceived s' 863999 = -10"
proof -
  let ?reads = "[rt_record 1 (packet_of 2 hidden_slice), rt_record 2 (packet_of 4 hidden_slice),
            rt_record 3 (packet_of 6 hidden_slice)]
           @ replicate 86394 (rt_record 4 (packet_of 6 hidden_slice))
           @ [rt_record 5 (packet_of 8 hidden_slice)]"
  let ?st0 = "\<lparr> rs_desk = ResetBuffers GripMMIDesktop_startup, rs_previous_packet_timestamp = 0,
              rs_epmHeader = rtHeader \<lparr> TMCounter := 0 \<rparr>, rs_rt = packet_of 0 hidden_slice,
              rs_packets_read = 0, rs_trace = [EvOpen] \<rparr>"
  from break_near_capacity_in_a_pass obtain st' where
    r: "read_rt_packets 999999 ?reads ?st0 = Inr st'" and
    full: "nFrames (rs_desk st') = MAX_FRAMES" and
    blanks: "\<forall>i. 863994 \<le> i \<and> i < 863999 \<longrightarrow> blank_at 999999 (rs_desk st') i" and
    slice: "PacketReceived (rs_desk st') 863999 = -10"
    by blast
  have pos: "0 < MAX_OPEN_CACHE_RETRIES" by (simp add: MAX_OPEN_CACHE_RETRIES_def)
  have opened: "open_cache (\<lambda>k. 3) 0 0 [] = (3, [EvOpen])"
    using open_cache_first_success [where k = 0 and sopen = "\<lambda>k. 3"
            and retry_count = 0 and fid = 0 and tr = "[]"] pos
    by simp
  show ?thesis
  proof (cases "rt_previousTMCounter (rs_desk st') \<noteq> TMCounter (rs_epmHeader st')")
    case True
    with opened r full blanks slice show ?thesis
      by (simp add: GetGripRT_def cache_of_def Let_def startup_fields blank_at_def)
  next
    case False
    with opened r full blanks slice show ?thesis
      by (simp add: GetGripRT_def cache_of_def Let_def startup_fields blank_at_def)
  qed
qed

subsection \<open>The new-data report\<close>

lemma insert_blank_frames_statics:
  "rt_previousTMCounter (insert_blank_frames M count s) = rt_previousTMCounter s \<and>
   buffers_full_alert (insert_blank_frames M count s) = buffers_full_alert s"
proof (induction M count s rule: insert_blank_frames.induct)
  case (1 M count s)
  show ?case
  proof (cases "count < MAX_PLOT_STEP \<and> nFrames s < MAX_FRAMES - 1")
    case False
    then have "insert_blank_frames M count s = s"
      by (subst insert_blank_frames.simps) auto
    then show ?thesis by simp
  next
    case True
    then have "insert_blank_frames M count s
        = insert_blank_frames M (count + 1) (blank_frame M s)"
      by (subst insert_blank_frames.simps) simp
    with "1.IH" [OF True] show ?thesis
      by (simp add: blank_frame_def Let_def)
  qed
qed

lemma decode_pose_statics:
  "rt_previousTMCounter (decode_pose M sl s) = rt_previousTMCounter s \<and>
   buffers_full_alert (decode_pose M sl s) = buffers_full_alert s"
  by (cases "manipulandumVisibility sl = 0") (simp_all add: decode_pose_hidden decode_pose_visible)

lemma decode_slice_statics:
  "rt_previousTMCounter (decode_slice M sl s) = rt_previousTMCounter s \<and>
   buffers_full_alert (decode_slice M sl s) = buffers_full_alert s"
proof -
  let ?s0 = "s\<lparr> RealMarkerTime := (RealMarkerTime s)(nFrames s := bestGuessPoseTimestamp sl),
            RealAnalogTime := (RealAnalogTime s)(nFrames s := bestGuessAnalogTimestamp sl) \<rparr>"
  let ?s1 = "decode_pose M sl ?s0"
  let ?s2 = "decode_forces M sl ?s1"
  from decode_pose_statics [of M sl ?s0] decode_forces_pose_state [of M sl ?s1]
    decode_markers_frames [of M sl ?s2]
  show ?thesis
    by (simp add: decode_slice_unfold)
qed

lemma decode_slices_statics:
  "rt_previousTMCounter (decode_slices M rt k s) = rt_previousTMCounter s \<and>
   buffers_full_alert (decode_slices M rt k s) = buffers_full_alert s"
proof (induction M rt k s rule: decode_slices.induct)
  case (1 M rt k s)
  show ?case
  proof (cases "k < RT_SLICES_PER_PACKET \<and> nFrames s < MAX_FRAMES")
    case False
    then have "decode_slices M rt k s = s"
      by (subst decode_slices.simps) auto
    then show ?thesis by simp
  next
    case True
    then have "decode_slices M rt k s
        = decode_slices M rt (k + 1) (decode_slice M (dataSlice rt k) s)"
      by (subst decode_slices.simps) simp
    with "1.IH" [OF True] show ?thesis
      by (simp add: decode_slice_statics)
  qed
qed

lemma decode_packet_statics:
  "rt_previousTMCounter (fst (decode_packet M rt previous_packet_timestamp s))
     = rt_previousTMCounter s \<and>
   buffers_full_alert (fst (decode_packet M rt previous_packet_timestamp s))
     = buffers_full_alert s"
  by (simp add: decode_packet_def Let_def decode_slices_statics insert_blank_frames_statics)

lemma read_rt_packets_statics:
  "read_rt_packets M rs st = Inr st' \<Longrightarrow>
   rt_previousTMCounter (rs_desk st') = rt_previousTMCounter (rs_desk st) \<and>
   buffers_full_alert (rs_desk st') = buffers_full_alert (rs_desk st) \<and>
   (rs_packets_read st' = rs_packets_read st \<and> rs_epmHeader st' = rs_epmHeader st \<or>
    rs_packets_read st < rs_packets_read st' \<and> (\<exists>r\<in>set rs. rs_epmHeader st' = rd_header r))"
proof (induction rs arbitrary: st)
  case Nil
  then show ?case by (auto split: if_splits)
next
  case (Cons r rs)
  let ?d = "decode_packet M (rd_info r) (rs_previous_packet_timestamp st) (rs_desk st)"
  let ?st1 = "st\<lparr> rs_desk := fst ?d, rs_previous_packet_timestamp := snd ?d,
                    rs_epmHeader := rd_header r, rs_rt := rd_info r,
                    rs_packets_read := rs_packets_read st + 1,
                    rs_trace := rs_trace st @ [EvRead] \<rparr>"
  show ?case
  proof (cases "read_rt_packets M (r # rs) st = read_rt_packets M rs ?st1")
    case True
    with Cons.prems have r: "read_rt_packets M rs ?st1 = Inr st'" by simp
    from Cons.IH [OF r]
      decode_packet_statics [of M "rd_info r" "rs_previous_packet_timestamp st" "rs_desk st"]
    show ?thesis by auto
  next
    case False
    with Cons.prems show ?thesis
      by (auto simp: Let_def split: if_splits)
  qed
qed

text \<open>
  What a returning call that is not cut short by the buffer-full flag reports: \<open>TRUE\<close>
  exactly when the remembered counter differs, as 16-bit values, from the counter in
  \<open>epmHeader\<close> after the read loop, which is then remembered; if a complete record was
  read, that header is the header of a record of the file.
\<close>

lemma GetGripRT_report:
  assumes "\<not> buffers_full_alert s" and "GetGripRT M cache s = (Inr (r, s'), tr)"
  shows "\<exists>st. read_rt_packets M (rtc_reads cache)
                \<lparr> rs_desk = ResetBuffers s, rs_previous_packet_timestamp = 0,
                  rs_epmHeader = rtc_uninit_epmHeader cache, rs_rt = rtc_uninit_rt cache,
                  rs_packets_read = 0,
                  rs_trace = snd (open_cache (rtc_sopen cache) 0 (rtc_uninit_fid cache) []) \<rparr>
              = Inr st \<and>
            r = (if rt_previousTMCounter s \<noteq> TMCounter (rs_epmHeader st) then TRUE else FALSE) \<and>
            rt_previousTMCounter s' = TMCounter (rs_epmHeader st) \<and>
            (0 < rs_packets_read st \<longrightarrow> (\<exists>rd\<in>set (rtc_reads cache). rs_epmHeader st = rd_header rd))"
proof -
  let ?st0 = "\<lparr> rs_desk = ResetBuffers s, rs_previous_packet_timestamp = 0,
                  rs_epmHeader = rtc_uninit_epmHeader cache, rs_rt = rtc_uninit_rt cache,
                  rs_packets_read = 0,
                  rs_trace = snd (open_cache (rtc_sopen cache) 0 (rtc_uninit_fid cache) []) \<rparr>"
  from assms obtain st where st: "read_rt_packets M (rtc_reads cache) ?st0 = Inr st"
    by (auto simp: GetGripRT_def Let_def split: if_splits sum.splits prod.splits)
  from read_rt_packets_statics [OF st]
  have keep: "rt_previousTMCounter (rs_desk st) = rt_previousTMCounter s"
    and hdr: "0 < rs_packets_read st \<longrightarrow> (\<exists>rd\<in>set (rtc_reads cache). rs_epmHeader st = rd_header rd)"
    by (auto simp: ResetBuffers_def)
  from assms st keep
  have "r = (if rt_previousTMCounter s \<noteq> TMCounter (rs_epmHeader st) then TRUE else FALSE) \<and>
        rt_previousTMCounter s' = TMCounter (rs_epmHeader st)"
    by (auto simp: GetGripRT_def Let_def split: if_splits sum.splits prod.splits)
  with st hdr show ?thesis by blast
qed

text \<open>
  Claim C4, where the code departs from it. The claim has \<open>GetGripRT\<close> return \<open>TRUE\<close>
  exactly when the sequence counter of the most recently read record differs from the
  remembered one. The comparison is made on the local \<open>epmHeader\<close>, which has no
  initialiser and is only assigned when a complete record is read. On the first call, with
  a cache file that holds no complete record and the local holding 0xCCCC, the call opens,
  reads once, closes, and returns \<open>TRUE\<close> with no frame decoded, and remembers 0xCCCC as
  the counter of the last record.
\<close>

theorem new_data_reported_without_any_record:
  "rtc_reads (cache_of (\<lambda>k. 3) [] 0xCCCC) = [] \<and>
   rt_previousTMCounter GripMMIDesktop_startup = 0 \<and>
   return_value (GetGripRT 999999 (cache_of (\<lambda>k. 3) [] 0xCCCC) GripMMIDesktop_startup)
     = Some TRUE \<and>
   snd (GetGripRT 999999 (cache_of (\<lambda>k. 3) [] 0xCCCC) GripMMIDesktop_startup)
     = [EvOpen, EvRead, EvClose] \<and>
   map_option nFrames
     (state_after (GetGripRT 999999 (cache_of (\<lambda>k. 3) [] 0xCCCC) GripMMIDesktop_startup))
     = Some 0 \<and>
   map_option rt_previousTMCounter
     (state_after (GetGripRT 999999 (cache_of (\<lambda>k. 3) [] 0xCCCC) GripMMIDesktop_startup))
     = Some 0xCCCC"
proof -
  have pos: "0 < MAX_OPEN_CACHE_RETRIES" by (simp add: MAX_OPEN_CACHE_RETRIES_def)
  have opened: "open_cache (\<lambda>k. 3) 0 0 [] = (3, [EvOpen])"
    using open_cache_first_success [where k = 0 and sopen = "\<lambda>k. 3"
            and retry_count = 0 and fid = 0 and tr = "[]"] pos
    by simp
  show ?thesis
    by (simp add: return_value_def state_after_def GetGripRT_def cache_of_def opened Let_def
          ResetBuffers_def startup_fields MAX_FRAMES_def rtHeader_def)
qed

end
